theory Spec2Isabelle
  imports Main "HOL-Library.Word"
begin

unbundle bit_operations_syntax

section \<open>JavaScript values and the JSON codec of the store\<close>

text \<open>
  Every value of a bounty record is a scalar. \<open>json\<close> is what a stored JSON text holds
  after \<open>JSON.parse\<close>; \<open>jsval\<close> adds the values that exist in memory only:
  \<open>undefined\<close>, \<open>NaN\<close> and ethers' \<open>BigNumber\<close>. Numbers are modelled as
  integers: every number the store handles is an enum tag or a gas amount.
\<close>

datatype json = JNull | JBool bool | JNum int | JStr string

datatype jsval = Undefined | NaN | Big int | J json

type_synonym object = "string \<rightharpoonup> jsval"

type_synonym json_object = "string \<rightharpoonup> json"

datatype error =
    ReadonlyConnection    \<comment> \<open>\<open>Error('ChainId is not set: This connection is readonly')\<close>\<close>
  | InvalidBigNumber      \<comment> \<open>\<open>BigNumber.from\<close> rejects its argument\<close>
  | InvalidUtf8           \<comment> \<open>\<open>toUtf8String\<close> rejects its argument\<close>
  | InvalidAddress        \<comment> \<open>\<open>getAddress\<close> rejects its argument\<close>
  | DataTooLong           \<comment> \<open>\<open>zeroPadValue\<close> rejects its argument\<close>
  | Thrown string         \<comment> \<open>any other thrown value, by its text\<close>

subsection \<open>Decimal and hexadecimal integers (\<open>BigNumber.toString\<close>, \<open>BigNumber.from\<close>)\<close>

definition digit_char :: "nat \<Rightarrow> char" where
  "digit_char d = char_of (48 + d)"

function nat_to_dec :: "nat \<Rightarrow> string" where
  "nat_to_dec n = (if n < 10 then [digit_char n] else nat_to_dec (n div 10) @ [digit_char (n mod 10)])"
  by pat_completeness auto
termination
  by (relation "measure id") auto

declare nat_to_dec.simps [simp del]

text \<open>\<open>BigNumber.prototype.toString\<close>: the decimal text, with a leading minus sign.\<close>

definition BigNumber_toString :: "int \<Rightarrow> string" where
  "BigNumber_toString n = (if n < 0 then CHR ''-'' # nat_to_dec (nat (- n)) else nat_to_dec (nat n))"

definition is_dec_digit :: "char \<Rightarrow> bool" where
  "is_dec_digit c = (48 \<le> (of_char c :: nat) \<and> (of_char c :: nat) \<le> 57)"

definition hex_digit_val :: "char \<Rightarrow> nat option" where
  "hex_digit_val c =
     (let k = (of_char c :: nat) in
      if 48 \<le> k \<and> k \<le> 57 then Some (k - 48)
      else if 97 \<le> k \<and> k \<le> 102 then Some (k - 87)
      else if 65 \<le> k \<and> k \<le> 70 then Some (k - 55)
      else None)"

definition dec_value :: "string \<Rightarrow> nat" where
  "dec_value s = foldl (\<lambda>a c. 10 * a + ((of_char c :: nat) - 48)) 0 s"

definition hex_value :: "string \<Rightarrow> nat" where
  "hex_value s = foldl (\<lambda>a c. 16 * a + (case hex_digit_val c of Some d \<Rightarrow> d | None \<Rightarrow> 0)) 0 s"

text \<open>
  The regular expressions \<open>/^[0-9]+$/\<close> and \<open>/^0x[0-9a-f]+$/i\<close>. The second one lets an
  upper-case prefix \<open>0X\<close> through, but ethers makes no number of such a text (it puts
  \<open>0x\<close> in front of it), so only the prefix \<open>0x\<close> counts here; the digits are of
  either case.
\<close>

definition is_dec_literal :: "string \<Rightarrow> bool" where
  "is_dec_literal s = (s \<noteq> [] \<and> list_all is_dec_digit s)"

definition is_hex_literal :: "string \<Rightarrow> bool" where
  "is_hex_literal s =
     (case s of
        z # x # ds \<Rightarrow> z = CHR ''0'' \<and> x = CHR ''x'' \<and> ds \<noteq> []
                      \<and> list_all (\<lambda>c. hex_digit_val c \<noteq> None) ds
      | _ \<Rightarrow> False)"

definition unsigned_value :: "string \<Rightarrow> nat option" where
  "unsigned_value s =
     (if is_dec_literal s then Some (dec_value s)
      else if is_hex_literal s then Some (hex_value (drop 2 s))
      else None)"

text \<open>
  \<open>BigNumber.from(value: string)\<close> of ethers v5: a decimal text (\<open>/^-?[0-9]+$/\<close>) or a
  hexadecimal one (\<open>/^-?0x[0-9a-f]+$/i\<close>), anything else throws.
\<close>

definition BigNumber_from_string :: "string \<Rightarrow> error + int" where
  "BigNumber_from_string s =
     (case s of
        c # t \<Rightarrow>
          (if c = CHR ''-''
           then (case unsigned_value t of Some n \<Rightarrow> Inr (- int n) | None \<Rightarrow> Inl InvalidBigNumber)
           else (case unsigned_value s of Some n \<Rightarrow> Inr (int n) | None \<Rightarrow> Inl InvalidBigNumber))
      | [] \<Rightarrow> Inl InvalidBigNumber)"

text \<open>
  \<open>BigNumber.from\<close> on a parsed JSON value: a string goes through the parser above, a
  number must be a safe integer (\<open>MAX_SAFE = 0x1fffffffffffff\<close>), booleans and \<open>null\<close>
  throw.
\<close>

definition MAX_SAFE :: int where
  "MAX_SAFE = 9007199254740991"

fun BigNumber_from :: "json \<Rightarrow> error + int" where
  "BigNumber_from (JStr s) = BigNumber_from_string s"
| "BigNumber_from (JNum n) = (if n \<ge> MAX_SAFE \<or> n \<le> - MAX_SAFE then Inl InvalidBigNumber else Inr n)"
| "BigNumber_from (JBool b) = Inl InvalidBigNumber"
| "BigNumber_from JNull = Inl InvalidBigNumber"

subsection \<open>\<open>JSON.stringify\<close>, \<open>JSON.parse\<close>, property access\<close>

text \<open>
  \<open>JSON.stringify\<close> drops a property whose value is \<open>undefined\<close>, writes \<open>NaN\<close> as
  \<open>null\<close>, and writes a \<open>BigNumber\<close> through the \<open>toJSON\<close> that the store patches
  onto its prototype: \<open>this.toString()\<close>.
\<close>

fun toJSON :: "jsval \<Rightarrow> json option" where
  "toJSON Undefined = None"
| "toJSON NaN = Some JNull"
| "toJSON (Big n) = Some (JStr (BigNumber_toString n))"
| "toJSON (J j) = Some j"

definition JSON_stringify :: "object \<Rightarrow> json_object" where
  "JSON_stringify obj = (\<lambda>k. case obj k of None \<Rightarrow> None | Some v \<Rightarrow> toJSON v)"

definition JSON_parse :: "json_object \<Rightarrow> object" where
  "JSON_parse txt = (\<lambda>k. map_option J (txt k))"

text \<open>\<open>obj.k\<close>: a missing property reads as \<open>undefined\<close>.\<close>

definition get_prop :: "object \<Rightarrow> string \<Rightarrow> jsval" where
  "get_prop obj k = (case obj k of None \<Rightarrow> Undefined | Some v \<Rightarrow> v)"

text \<open>
  \<open>StringToNumber\<close> for the integers: white space around the text is dropped; the empty
  text is 0; a decimal integer may have a sign; \<open>0x\<close>, \<open>0o\<close> and \<open>0b\<close> (in either
  case) start a hexadecimal, octal or binary integer, which has no sign. Every other
  text is taken as \<open>NaN\<close> (\<open>None\<close>); the texts with a fraction, an exponent or
  \<open>Infinity\<close> among them are outside numbers modelled as integers.
\<close>

definition is_white_space :: "char \<Rightarrow> bool" where
  "is_white_space c = ((of_char c :: nat) \<in> {9, 10, 11, 12, 13, 32})"

definition trim :: "string \<Rightarrow> string" where
  "trim s = rev (dropWhile is_white_space (rev (dropWhile is_white_space s)))"

definition digits_value :: "nat \<Rightarrow> string \<Rightarrow> nat option" where
  "digits_value base s =
     (if s \<noteq> [] \<and> list_all (\<lambda>c. case hex_digit_val c of Some d \<Rightarrow> d < base | None \<Rightarrow> False) s
      then Some (foldl (\<lambda>a c. base * a + (case hex_digit_val c of Some d \<Rightarrow> d | None \<Rightarrow> 0)) 0 s)
      else None)"

definition StringToNumber :: "string \<Rightarrow> int option" where
  "StringToNumber s =
     (let t = trim s in
      case t of
        [] \<Rightarrow> Some 0
      | c # r \<Rightarrow>
          if c = CHR ''-'' then map_option (\<lambda>n. - int n) (digits_value 10 r)
          else if c = CHR ''+'' then map_option int (digits_value 10 r)
          else if take 2 t = ''0x'' \<or> take 2 t = ''0X'' then map_option int (digits_value 16 (drop 2 t))
          else if take 2 t = ''0o'' \<or> take 2 t = ''0O'' then map_option int (digits_value 8 (drop 2 t))
          else if take 2 t = ''0b'' \<or> take 2 t = ''0B'' then map_option int (digits_value 2 (drop 2 t))
          else map_option int (digits_value 10 t))"

text \<open>\<open>ToNumber\<close>, with \<open>None\<close> for \<open>NaN\<close>.\<close>

fun ToNumber :: "jsval \<Rightarrow> int option" where
  "ToNumber Undefined = None"
| "ToNumber NaN = None"
| "ToNumber (Big n) = Some n"
| "ToNumber (J JNull) = Some 0"
| "ToNumber (J (JBool b)) = Some (if b then 1 else 0)"
| "ToNumber (J (JNum n)) = Some n"
| "ToNumber (J (JStr s)) = StringToNumber s"

definition Math_max :: "jsval \<Rightarrow> jsval \<Rightarrow> jsval" where
  "Math_max a b =
     (case ToNumber a of
        None \<Rightarrow> NaN
      | Some x \<Rightarrow> (case ToNumber b of None \<Rightarrow> NaN | Some y \<Rightarrow> J (JNum (max x y))))"

text \<open>Truthiness of a parsed JSON value, as \<open>&&\<close> and \<open>if\<close> test it.\<close>

fun truthy :: "json \<Rightarrow> bool" where
  "truthy JNull = False"
| "truthy (JBool b) = b"
| "truthy (JNum n) = (n \<noteq> 0)"
| "truthy (JStr s) = (s \<noteq> [])"

section \<open>The submit queue (\<open>src/submitter/queues/submit-queue.ts\<close>)\<close>

text \<open>
  The order types of \<open>submitter.types\<close>. \<open>BytesLike\<close> values are kept as their hex
  texts; of the ethers types only the parts the queue reads are kept.
\<close>

record Order =
  amb :: string
  fromChainId :: string
  messageIdentifier :: string
  message :: string
  messageCtx :: string
  incentivesPayload :: "string option"

datatype TransactionRequest = TransactionRequest (to: string) (data: string)

record SubmitOrder = Order +
  isDelivery :: bool
  priority :: bool
  transactionRequest :: TransactionRequest
  requeueCount :: "int option"

record TransactionResponse =
  hash :: string

record TransactionReceipt =
  gasUsed :: int

record SubmitOrderResult = SubmitOrder +
  tx :: TransactionResponse
  txReceipt :: TransactionReceipt

text \<open>
  A thrown value, by what the queue reads of it: its \<open>code\<close> property (\<open>Undefined\<close>
  when it has none) and its text. Every value that \<open>handleOrder\<close> throws is an object or
  a truthy value, so its \<open>code\<close> can be read.
\<close>

record thrown =
  code :: jsval
  description :: string

text \<open>What the wallet answers to \<open>submitTransaction\<close>; an absent error is \<open>None\<close>.\<close>

record TransactionResult =
  result_tx :: "TransactionResponse option"
  result_txReceipt :: "TransactionReceipt option"
  submissionError :: "thrown option"
  confirmationError :: "thrown option"
  metadata :: SubmitOrder

text \<open>The calls the queue makes on its collaborators, in the order it makes them.\<close>

datatype log_level = Debug | Info | Warn

datatype effect =
    Log log_level string
  | ProviderCall TransactionRequest
  | WalletSubmitTransaction string TransactionRequest SubmitOrder
  | StoreRegisterDeliveryCost string int

text \<open>
  \<open>handleOrder\<close>. \<open>simulation\<close> is the outcome of the static call, should it be made
  (\<open>None\<close> when it resolves, the thrown value otherwise); \<open>answer\<close> is the wallet's.
  The result is \<open>Inl\<close> when \<open>handleOrder\<close> itself rejects, and otherwise the outcome of the
  promise it returns under \<open>result\<close>.
\<close>

definition handleOrder ::
  "string \<Rightarrow> thrown option \<Rightarrow> TransactionResult \<Rightarrow> SubmitOrder \<Rightarrow> int
     \<Rightarrow> effect list \<times> (thrown + (thrown + SubmitOrderResult))" where
  "handleOrder chain simulation answer order retryCount =
     (let simulate = (retryCount > 0 \<or> (case requeueCount order of None \<Rightarrow> 0 | Some n \<Rightarrow> n) > 0);
          effects = [Log Debug ''Handling submitter submit order'']
                    @ (if simulate then [ProviderCall (transactionRequest order)] else [])
      in case (if simulate then simulation else None) of
           Some e \<Rightarrow> (effects, Inl e)
         | None \<Rightarrow>
             (effects @ [WalletSubmitTransaction chain (transactionRequest order) order],
              Inr (case submissionError answer of
                     Some e \<Rightarrow> Inl e
                   | None \<Rightarrow>
                  (case confirmationError answer of
                     Some e \<Rightarrow> Inl e
                   | None \<Rightarrow>
                  (case result_tx answer of
                     None \<Rightarrow> Inl \<lparr>code = Undefined,
                        description = ''No transaction returned on wallet transaction submission result.''\<rparr>
                   | Some t \<Rightarrow>
                  (case result_txReceipt answer of
                     None \<Rightarrow> Inl \<lparr>code = Undefined,
                        description = ''No transaction receipt returned on wallet transaction submission result.''\<rparr>
                   | Some r \<Rightarrow>
                       Inr (SubmitOrder.extend (metadata answer) \<lparr>tx = t, txReceipt = r\<rparr>)))))))"

definition handleFailedOrder :: "SubmitOrder \<Rightarrow> int \<Rightarrow> thrown \<Rightarrow> effect list \<times> bool" where
  "handleFailedOrder order retryCount error =
     (if code error = J (JStr ''CALL_EXCEPTION'')
      then ([Log Info ''Error on message submission: CALL_EXCEPTION. It has likely been relayed by another relayer. Dropping message.''],
            False)
      else ([Log Warn ''Error on message submission. Retrying if possible.''], True))"

definition registerSubmissionCost :: "SubmitOrder \<Rightarrow> int \<Rightarrow> effect list" where
  "registerSubmissionCost order gas =
     (if isDelivery order then [StoreRegisterDeliveryCost (messageIdentifier order) gas] else [])"

definition onOrderCompletion ::
  "SubmitOrder \<Rightarrow> bool \<Rightarrow> SubmitOrderResult option \<Rightarrow> int \<Rightarrow> effect list" where
  "onOrderCompletion order success result retryCount =
     (if success
      then (case result of
              Some res \<Rightarrow>
                [Log Info ''Successful submit order: message submitted.'']
                @ registerSubmissionCost order (gasUsed (txReceipt res))
            | None \<Rightarrow> [Log Info ''Successful submit order: message not submitted.''])
      else [Log Warn ''Unsuccessful submit order.'']
           @ (if priority order then [Log Warn ''Priority submit order failed.''] else []))"

text \<open>The effects that reach the store, and the static calls, among a list of effects.\<close>

fun is_store_effect :: "effect \<Rightarrow> bool" where
  "is_store_effect (StoreRegisterDeliveryCost m g) = True"
| "is_store_effect e = False"

fun is_simulation :: "effect \<Rightarrow> bool" where
  "is_simulation (ProviderCall t) = True"
| "is_simulation e = False"

definition example_order :: "bool \<Rightarrow> int option \<Rightarrow> SubmitOrder" where
  "example_order delivery requeues =
     \<lparr>amb = ''mock'', fromChainId = ''1'', messageIdentifier = ''0xaa'', message = ''0x01'',
      messageCtx = ''0x'', incentivesPayload = None, isDelivery = delivery, priority = False,
      transactionRequest = TransactionRequest ''0xe5'' ''0x02'', requeueCount = requeues\<rparr>"

definition example_answer :: "SubmitOrder \<Rightarrow> TransactionResult" where
  "example_answer order =
     \<lparr>result_tx = Some \<lparr>hash = ''0x7a''\<rparr>, result_txReceipt = Some \<lparr>gasUsed = 150000\<rparr>,
      submissionError = None, confirmationError = None, metadata = order\<rparr>"

section \<open>The block-window loop of the collectors (\<open>run\<close>)\<close>

text \<open>
  \<open>MockCollectorWorker.run\<close> and \<open>SendMessageSnifferWorker.run\<close> are the same loop. Of the
  worker's configuration the loop reads \<open>startingBlock\<close>, \<open>stoppingBlock\<close> and
  \<open>maxBlocks\<close>, each of which may be unset. Block numbers are JavaScript numbers,
  modelled as integers.
\<close>

record scan_config =
  startingBlock :: "int option"
  stoppingBlock :: "int option"
  maxBlocks :: "int option"

text \<open>
  One pass through the body of \<open>while (true)\<close>, from the block \<open>startBlock\<close> and with
  the value \<open>tip\<close> of \<open>this.currentStatus?.blockNumber\<close> (\<open>None\<close> while no status has
  arrived). Either the worker waits and starts the body again with the same
  \<open>startBlock\<close>, or it calls \<open>queryAndProcessEvents(startBlock, endBlock)\<close> and then
  leaves the loop (\<open>None\<close>) or goes on from a new \<open>startBlock\<close>. An unset
  \<open>stoppingBlock\<close> is \<open>Infinity\<close>, which no block number reaches.
\<close>

datatype scan_step = Wait | Scan int int "int option"

definition scan_body :: "scan_config \<Rightarrow> int \<Rightarrow> int option \<Rightarrow> scan_step" where
  "scan_body cfg startBlock tip =
     (case tip of
        None \<Rightarrow> Wait
      | Some currentBlock \<Rightarrow>
          if currentBlock = 0 \<or> startBlock > currentBlock then Wait
          else
            (let endBlock1 = (case stoppingBlock cfg of
                                Some stopBlock \<Rightarrow> if currentBlock > stopBlock then stopBlock else currentBlock
                              | None \<Rightarrow> currentBlock);
                 blocksToProcess = endBlock1 - startBlock;
                 endBlock = (case maxBlocks cfg of
                               Some m \<Rightarrow> if blocksToProcess > m then startBlock + m else endBlock1
                             | None \<Rightarrow> endBlock1)
             in Scan startBlock endBlock
                  (case stoppingBlock cfg of
                     Some stopBlock \<Rightarrow> if endBlock \<ge> stopBlock then None else Some (endBlock + 1)
                   | None \<Rightarrow> Some (endBlock + 1))))"

text \<open>
  The loop over the successive values of the tip, one for each pass; the result is the
  list of windows passed to \<open>queryAndProcessEvents\<close>, which retries \<open>getLogs\<close> on the
  same window until it answers and catches the failure of any single log.
\<close>

fun scan_loop :: "scan_config \<Rightarrow> int \<Rightarrow> int option list \<Rightarrow> (int \<times> int) list" where
  "scan_loop cfg startBlock [] = []"
| "scan_loop cfg startBlock (tip # tips) =
     (case scan_body cfg startBlock tip of
        Wait \<Rightarrow> scan_loop cfg startBlock tips
      | Scan fromBlock toBlock next \<Rightarrow>
          (fromBlock, toBlock) #
          (case next of None \<Rightarrow> [] | Some startBlock' \<Rightarrow> scan_loop cfg startBlock' tips))"

text \<open>
  \<open>run\<close>: the first loop waits for a status and takes \<open>startingBlock ?? blockNumber\<close>,
  the second is \<open>scan_loop\<close>.
\<close>

fun run :: "scan_config \<Rightarrow> int option list \<Rightarrow> (int \<times> int) list" where
  "run cfg [] = []"
| "run cfg (None # tips) = run cfg tips"
| "run cfg (Some currentBlock # tips) =
     scan_loop cfg (case startingBlock cfg of Some b \<Rightarrow> b | None \<Rightarrow> currentBlock) tips"

text \<open>
  The spec's window end, in its words: \<open>min(currentTip, fromBlock + maxBlocks,
  stoppingBlock)\<close>, an unset bound not counting.
\<close>

definition spec_toBlock :: "scan_config \<Rightarrow> int \<Rightarrow> int \<Rightarrow> int" where
  "spec_toBlock cfg fromBlock currentTip =
     min currentTip
       (min (case maxBlocks cfg of Some m \<Rightarrow> fromBlock + m | None \<Rightarrow> currentTip)
            (case stoppingBlock cfg of Some stopBlock \<Rightarrow> stopBlock | None \<Rightarrow> currentTip))"

definition example_scan_config :: scan_config where
  "example_scan_config = \<lparr>startingBlock = Some 100, stoppingBlock = None, maxBlocks = Some 50\<rparr>"

definition example_stopped_config :: scan_config where
  "example_stopped_config = \<lparr>startingBlock = Some 100, stoppingBlock = Some 50, maxBlocks = Some 50\<rparr>"

section \<open>Bytes and hex texts (ethers)\<close>

text \<open>
  A \<open>Uint8Array\<close>, and a \<open>BytesLike\<close> hex text taken as the bytes it denotes.
\<close>

type_synonym bytes = "8 word list"












section \<open>The LayerZero collector's GARP decoder (\<open>decodeMessageWithContext\<close>)\<close>

record GARPDecodedMessage =
  context' :: string
  messageIdentifier :: string
  sender :: string
  destination :: string
  payload :: "nat list"



section \<open>The Mock collector (\<open>handleMockMessage\<close>, \<open>encodeMessage\<close>, \<open>encodeSignature\<close>)\<close>

text \<open>
  \<open>zeroPadValue(data, length)\<close>: zero bytes in front, and an error when the data is longer
  than the length.
\<close>

definition zeroPadValue :: "bytes \<Rightarrow> nat \<Rightarrow> error + bytes" where
  "zeroPadValue bs n = (if n < length bs then Inl DataTooLong else Inr (replicate (n - length bs) 0 @ bs))"

text \<open>\<open>solidityPacked(['bytes', 'bytes'], [address, message])\<close>: the two byte strings, joined.\<close>

definition encodeMessage :: "bytes \<Rightarrow> bytes \<Rightarrow> bytes" where
  "encodeMessage address msg = address @ msg"

text \<open>
  An ethers \<open>Signature\<close>: \<open>r\<close> and \<open>s\<close> are 32-byte values, \<open>v\<close> is 27 or 28 and fits
  a byte. The ABI encoding of an unsigned integer of any width is its value in 32 bytes,
  most significant byte first.
\<close>

record Signature =
  sig_r :: "256 word"
  sig_s :: "256 word"
  sig_v :: "8 word"

fun be_bytes :: "nat \<Rightarrow> nat \<Rightarrow> bytes" where
  "be_bytes 0 x = []"
| "be_bytes (Suc k) x = be_bytes k (x div 256) @ [of_nat (x mod 256)]"

definition be_value :: "bytes \<Rightarrow> nat" where
  "be_value bs = foldl (\<lambda>acc b. acc * 256 + unat b) 0 bs"

definition abi_uint8 :: "8 word \<Rightarrow> bytes" where
  "abi_uint8 x = be_bytes 32 (unat x)"

definition abi_uint256 :: "256 word \<Rightarrow> bytes" where
  "abi_uint256 x = be_bytes 32 (unat x)"

definition encodeSignature :: "Signature \<Rightarrow> bytes" where
  "encodeSignature signature =
     abi_uint8 (sig_v signature) @ abi_uint256 (sig_r signature) @ abi_uint256 (sig_s signature)"

text \<open>
  What the worker takes from outside the repository's sources: the hash \<open>keccak256\<close>,
  the ECDSA signing of a digest under a private key, \<open>decodeMockMessage\<close> of
  \<open>mock.utils\<close> (imported, but not among the sources) and the parser \<open>BigInt\<close>.
\<close>

record decoded_mock_message =
  decoded_messageIdentifier :: string
  decoded_sourceChain :: string
  decoded_destinationChain :: string
  decoded_payload :: string

record mock_primitives =
  keccak256 :: "bytes \<Rightarrow> bytes"
  sign :: "bytes \<Rightarrow> bytes \<Rightarrow> Signature"
  decodeMockMessage :: "bytes \<Rightarrow> error + decoded_mock_message"
  BigInt :: "string \<Rightarrow> error + int"

record MockWorkerData =
  incentivesAddress :: bytes
  privateKey :: bytes

record MockCollectorWorker =
  config :: MockWorkerData
  signingKey :: bytes
  incentivesAddressBytes32 :: bytes

text \<open>The constructor, for the fields the message handler reads.\<close>

definition new_MockCollectorWorker :: "MockWorkerData \<Rightarrow> error + MockCollectorWorker" where
  "new_MockCollectorWorker workerData =
     (case zeroPadValue (incentivesAddress workerData) 32 of
        Inl e \<Rightarrow> Inl e
      | Inr padded \<Rightarrow>
          Inr \<lparr>config = workerData, signingKey = privateKey workerData,
               incentivesAddressBytes32 = padded\<rparr>)"

record Log =
  blockNumber :: int
  blockHash :: string
  transactionHash :: string

record MessageEvent =
  destinationIdentifier :: bytes
  recipient :: bytes
  message :: bytes

record AmbMessage =
  messageIdentifier :: string
  amb :: string
  sourceChain :: string
  destinationChain :: string
  sourceEscrow :: bytes
  payload :: string
  recoveryContext :: "string option"
  priority :: "bool option"
  blockNumber :: "int option"
  transactionBlockNumber :: "int option"
  blockHash :: "string option"
  transactionHash :: "string option"

record AmbPayload =
  messageIdentifier :: string
  amb :: string
  destinationChainId :: string
  message :: bytes
  messageCtx :: "bytes option"
  priority :: "bool option"

text \<open>The calls the handler makes on the store, in order.\<close>

datatype collector_effect =
    SetAmb AmbMessage string
  | RegisterDestinationAddress string bytes
  | SubmitProof string AmbPayload

definition convertHexToDecimal :: "mock_primitives \<Rightarrow> string \<Rightarrow> error + string" where
  "convertHexToDecimal prims hex = (case BigInt prims hex of Inl e \<Rightarrow> Inl e | Inr n \<Rightarrow> Inr (BigNumber_toString n))"

text \<open>
  The handler's calls on the store up to the point where it returns or throws, and the
  error it throws, if any.
\<close>

definition handleMockMessage ::
  "mock_primitives \<Rightarrow> MockCollectorWorker \<Rightarrow> Log \<Rightarrow> MessageEvent
     \<Rightarrow> collector_effect list \<times> error option" where
  "handleMockMessage prims worker log messageEvent =
     (let msg = MessageEvent.message messageEvent in
      case decodeMockMessage prims msg of
        Inl e \<Rightarrow> ([], Some e)
      | Inr decodedMessage \<Rightarrow>
          (let ambMessage = \<lparr>AmbMessage.messageIdentifier = decoded_messageIdentifier decodedMessage,
                     AmbMessage.amb = ''mock'',
                     sourceChain = decoded_sourceChain decodedMessage,
                     destinationChain = decoded_destinationChain decodedMessage,
                     sourceEscrow = incentivesAddress (config worker),
                     AmbMessage.payload = decoded_payload decodedMessage,
                     recoveryContext = None,
                     AmbMessage.priority = None,
                     AmbMessage.blockNumber = Some (Log.blockNumber log),
                     transactionBlockNumber = None,
                     AmbMessage.blockHash = Some (Log.blockHash log),
                     AmbMessage.transactionHash = Some (Log.transactionHash log)\<rparr>;
               stored = [SetAmb ambMessage (Log.transactionHash log),
                         RegisterDestinationAddress (AmbMessage.messageIdentifier ambMessage)
                           (recipient messageEvent)];
               encodedMessage = encodeMessage (incentivesAddressBytes32 worker) msg;
               signature = sign prims (signingKey worker) (keccak256 prims encodedMessage);
               executionContext = encodeSignature signature
           in case convertHexToDecimal prims (destinationChain ambMessage) of
                Inl e \<Rightarrow> (stored, Some e)
              | Inr destinationChainId' \<Rightarrow>
                  (stored @
                   [SubmitProof destinationChainId'
                      \<lparr>AmbPayload.messageIdentifier = AmbMessage.messageIdentifier ambMessage,
                       AmbPayload.amb = ''mock'',
                       destinationChainId = destinationChainId',
                       AmbPayload.message = encodedMessage,
                       messageCtx = Some executionContext,
                       AmbPayload.priority = None\<rparr>],
                   None)))"

text \<open>The payload a list of effects publishes.\<close>

fun published_payload :: "collector_effect list \<Rightarrow> AmbPayload option" where
  "published_payload [] = None"
| "published_payload (SubmitProof chain p # effs) = Some p"
| "published_payload (e # effs) = published_payload effs"

definition example_primitives :: mock_primitives where
  "example_primitives =
     \<lparr>keccak256 = (\<lambda>bs. replicate 32 (of_nat (length bs))),
      sign = (\<lambda>key digest. \<lparr>sig_r = 7, sig_s = 9, sig_v = 27\<rparr>),
      decodeMockMessage = (\<lambda>msg. Inr \<lparr>decoded_messageIdentifier = ''0xaa'', decoded_sourceChain = ''0x01'',
                                         decoded_destinationChain = ''0x02'', decoded_payload = ''0x''\<rparr>),
      BigInt = (\<lambda>s. Inr 2)\<rparr>"

definition example_worker_data :: MockWorkerData where
  "example_worker_data = \<lparr>incentivesAddress = replicate 20 0xe5, privateKey = replicate 32 0x01\<rparr>"

definition example_log :: Log where
  "example_log = \<lparr>Log.blockNumber = 120, Log.blockHash = ''0xb7'', Log.transactionHash = ''0x7a''\<rparr>"

definition example_message_event :: MessageEvent where
  "example_message_event =
     \<lparr>destinationIdentifier = replicate 32 0x02, recipient = replicate 20 0x33,
      MessageEvent.message = [0x01, 0x02, 0x03]\<rparr>"

section \<open>The store (\<open>src/store/store.lib.ts\<close>)\<close>

text \<open>
  Modelled from the spec: the enum \<open>BountyStatus\<close> of \<open>src/store/types/bounty.enum\<close>,
  which the sources import but do not include. The spec gives its members and their order,
  \<open>BountyPlaced < MessageDelivered < BountyClaimed\<close>; the store compares them with
  \<open>Math.max\<close>, so they are numbers, numbered from 0 as TypeScript does.
\<close>

datatype BountyStatus = BountyPlaced | MessageDelivered | BountyClaimed

fun status_number :: "BountyStatus \<Rightarrow> int" where
  "status_number BountyPlaced = 0"
| "status_number MessageDelivered = 1"
| "status_number BountyClaimed = 2"

text \<open>
  The state of a \<open>Store\<close>: its \<open>chainId\<close> (\<open>None\<close> for a read-only connection), the
  keys of the database with the parsed JSON object each one holds, and the messages
  published so far, oldest first. A stored text is the JSON of an object and so never
  empty: \<open>if (existingValue)\<close> tests that the key is present. Each operation is taken as
  one atomic step.
\<close>

record store =
  chainId :: "string option"
  redis :: "string \<rightharpoonup> json_object"
  published :: "(string \<times> json_object) list"

definition relayerStorePrefix :: string where "relayerStorePrefix = ''relayer''"
definition bountyMidfix :: string where "bountyMidfix = ''bounty''"
definition ambMidfix :: string where "ambMidfix = ''amb''"
definition proofMidfix :: string where "proofMidfix = ''proof''"
definition wordConnecter :: string where "wordConnecter = '':''"

fun join :: "string \<Rightarrow> string list \<Rightarrow> string" where
  "join sep [] = []"
| "join sep [x] = x"
| "join sep (x # y # ys) = x @ sep @ join sep (y # ys)"

definition combineString :: "string list \<Rightarrow> string" where
  "combineString vals = join wordConnecter vals"

definition postMessage :: "store \<Rightarrow> string \<Rightarrow> json_object \<Rightarrow> store" where
  "postMessage st channel payload' =
     st\<lparr>published := published st @ [(combineString [relayerStorePrefix, channel], payload')]\<rparr>"

definition store_get :: "store \<Rightarrow> string \<Rightarrow> json_object option" where
  "store_get st key = redis st key"

definition store_set :: "store \<Rightarrow> string \<Rightarrow> json_object \<Rightarrow> store" where
  "store_set st key val =
     postMessage (st\<lparr>redis := (redis st)(key \<mapsto> val)\<rparr>) ''key''
       [''key'' \<mapsto> JStr key, ''action'' \<mapsto> JStr ''set'']"

definition bounty_key :: "string \<Rightarrow> string" where
  "bounty_key mid = combineString [relayerStorePrefix, bountyMidfix, mid]"

record event_base =
  messageIdentifier :: string
  incentivesAddress :: string
  transactionHash :: string

record placed_event = event_base +
  incentive :: object

record increased_event = event_base +
  newDeliveryGasPrice :: int
  newAckGasPrice :: int

definition getBounty :: "store \<Rightarrow> string \<Rightarrow> error + object option" where
  "getBounty st mid =
     (case redis st (bounty_key mid) of
        None \<Rightarrow> Inr None
      | Some bounty \<Rightarrow>
          (case (bounty ''priceOfDeliveryGas'', bounty ''priceOfAckGas'', bounty ''targetDelta'') of
             (Some d, Some a, Some t) \<Rightarrow>
               (if truthy d \<and> truthy a \<and> truthy t
                then (case BigNumber_from d of
                        Inl e \<Rightarrow> Inl e
                      | Inr d' \<Rightarrow>
                     (case BigNumber_from a of
                        Inl e \<Rightarrow> Inl e
                      | Inr a' \<Rightarrow>
                     (case BigNumber_from t of
                        Inl e \<Rightarrow> Inl e
                      | Inr t' \<Rightarrow>
                          Inr (Some ((JSON_parse bounty)
                                 (''priceOfDeliveryGas'' \<mapsto> Big d',
                                  ''priceOfAckGas'' \<mapsto> Big a',
                                  ''targetDelta'' \<mapsto> Big t'))))))
                else Inr None)
           | _ \<Rightarrow> Inr None))"

text \<open>The object that \<open>registerBountyPlaced\<close> builds from the event (\<open>let bounty\<close>).\<close>

definition placed_bounty :: "string \<Rightarrow> placed_event \<Rightarrow> object" where
  "placed_bounty cid event = [
     ''messageIdentifier'' \<mapsto> J (JStr (messageIdentifier event)),
     ''fromChainId'' \<mapsto> J (JStr cid),
     ''maxGasDelivery'' \<mapsto> get_prop (incentive event) ''maxGasDelivery'',
     ''maxGasAck'' \<mapsto> get_prop (incentive event) ''maxGasAck'',
     ''refundGasTo'' \<mapsto> get_prop (incentive event) ''refundGasTo'',
     ''priceOfDeliveryGas'' \<mapsto> get_prop (incentive event) ''priceOfDeliveryGas'',
     ''priceOfAckGas'' \<mapsto> get_prop (incentive event) ''priceOfAckGas'',
     ''targetDelta'' \<mapsto> get_prop (incentive event) ''targetDelta'',
     ''status'' \<mapsto> J (JNum (status_number BountyPlaced)),
     ''address'' \<mapsto> J (JStr (incentivesAddress event)),
     ''finalised'' \<mapsto> J (JBool False),
     ''submitTransactionHash'' \<mapsto> J (JStr (transactionHash event))]"

definition registerBountyPlaced :: "store \<Rightarrow> placed_event \<Rightarrow> error + store" where
  "registerBountyPlaced st event =
     (case chainId st of
        None \<Rightarrow> Inl ReadonlyConnection
      | Some cid \<Rightarrow>
          (let key = bounty_key (messageIdentifier event);
               bounty = (case store_get st key of
                           Some existingValue \<Rightarrow> placed_bounty cid event ++ JSON_parse existingValue
                         | None \<Rightarrow> placed_bounty cid event)
           in Inr (store_set st key (JSON_stringify bounty))))"

definition registerMessageDelivered :: "store \<Rightarrow> event_base \<Rightarrow> error + store" where
  "registerMessageDelivered st event =
     (case chainId st of
        None \<Rightarrow> Inl ReadonlyConnection
      | Some cid \<Rightarrow>
          (let key = bounty_key (messageIdentifier event) in
           case redis st key of
             None \<Rightarrow>
               Inr (store_set st key (JSON_stringify [
                 ''messageIdentifier'' \<mapsto> J (JStr (messageIdentifier event)),
                 ''status'' \<mapsto> J (JNum (status_number MessageDelivered)),
                 ''execTransactionHash'' \<mapsto> J (JStr (transactionHash event)),
                 ''toChainId'' \<mapsto> J (JStr cid)]))
           | Some existingValue \<Rightarrow>
               (let bountyAsRead = JSON_parse existingValue;
                    bounty = bountyAsRead(
                      ''status'' \<mapsto> Math_max (get_prop bountyAsRead ''status'')
                                      (J (JNum (status_number MessageDelivered))),
                      ''execTransactionHash'' \<mapsto> J (JStr (transactionHash event)),
                      ''toChainId'' \<mapsto> J (JStr cid))
                in Inr (store_set st key (JSON_stringify bounty)))))"

definition registerBountyClaimed :: "store \<Rightarrow> event_base \<Rightarrow> error + store" where
  "registerBountyClaimed st event =
     (case chainId st of
        None \<Rightarrow> Inl ReadonlyConnection
      | Some cid \<Rightarrow>
          (let key = bounty_key (messageIdentifier event) in
           case redis st key of
             None \<Rightarrow>
               Inr (store_set st key (JSON_stringify [
                 ''messageIdentifier'' \<mapsto> J (JStr (messageIdentifier event)),
                 ''status'' \<mapsto> J (JNum (status_number BountyClaimed)),
                 ''ackTransactionHash'' \<mapsto> J (JStr (transactionHash event)),
                 ''fromChainId'' \<mapsto> J (JStr cid)]))
           | Some existingValue \<Rightarrow>
               (let bountyAsRead = JSON_parse existingValue;
                    bounty = bountyAsRead(
                      ''status'' \<mapsto> Math_max (J (JNum (status_number BountyClaimed)))
                                      (get_prop bountyAsRead ''status''),
                      ''ackTransactionHash'' \<mapsto> J (JStr (transactionHash event)),
                      ''fromChainId'' \<mapsto> J (JStr cid))
                in Inr (store_set st key (JSON_stringify bounty)))))"

text \<open>\<open>x ?? '0'\<close> followed by \<open>BigNumber.from\<close>: a missing or \<open>null\<close> price reads as 0.\<close>

definition price_or_zero :: "json option \<Rightarrow> error + int" where
  "price_or_zero v =
     (case v of
        None \<Rightarrow> BigNumber_from (JStr ''0'')
      | Some JNull \<Rightarrow> BigNumber_from (JStr ''0'')
      | Some j \<Rightarrow> BigNumber_from j)"

definition registerBountyIncreased :: "store \<Rightarrow> increased_event \<Rightarrow> error + store" where
  "registerBountyIncreased st event =
     (case chainId st of
        None \<Rightarrow> Inl ReadonlyConnection
      | Some cid \<Rightarrow>
          (let key = bounty_key (messageIdentifier event) in
           case redis st key of
             None \<Rightarrow>
               Inr (store_set st key (JSON_stringify [
                 ''messageIdentifier'' \<mapsto> J (JStr (messageIdentifier event)),
                 ''priceOfDeliveryGas'' \<mapsto> Big (newDeliveryGasPrice event),
                 ''priceOfAckGas'' \<mapsto> Big (newAckGasPrice event)]))
           | Some existingValue \<Rightarrow>
               (case price_or_zero (existingValue ''priceOfDeliveryGas'') of
                  Inl e \<Rightarrow> Inl e
                | Inr currentDeliveryGasPrice \<Rightarrow>
               (case price_or_zero (existingValue ''priceOfAckGas'') of
                  Inl e \<Rightarrow> Inl e
                | Inr currentAckGasPrice \<Rightarrow>
                   (let hasDeliveryGasPriceIncreased = (currentDeliveryGasPrice < newDeliveryGasPrice event);
                        hasAckGasPriceIncreased = (currentAckGasPrice < newAckGasPrice event);
                        hasChanged = (hasDeliveryGasPriceIncreased \<or> hasAckGasPriceIncreased)
                    in if hasChanged
                       then Inr (store_set st key (JSON_stringify ((JSON_parse existingValue)(
                              ''priceOfDeliveryGas'' \<mapsto>
                                 Big (if hasDeliveryGasPriceIncreased then newDeliveryGasPrice event
                                      else currentDeliveryGasPrice),
                              ''priceOfAckGas'' \<mapsto>
                                 Big (if hasAckGasPriceIncreased then newAckGasPrice event
                                      else currentAckGasPrice)))))
                       else Inr st)))))"

text \<open>
  A sequence of calls on one store. A call that throws does so before it writes, so it
  leaves the store as it was and the next call runs on that store.
\<close>

datatype store_call =
    RegisterBountyPlaced placed_event
  | RegisterMessageDelivered event_base
  | RegisterBountyClaimed event_base
  | RegisterBountyIncreased increased_event

fun call_store :: "store \<Rightarrow> store_call \<Rightarrow> error + store" where
  "call_store st (RegisterBountyPlaced e) = registerBountyPlaced st e"
| "call_store st (RegisterMessageDelivered e) = registerMessageDelivered st e"
| "call_store st (RegisterBountyClaimed e) = registerBountyClaimed st e"
| "call_store st (RegisterBountyIncreased e) = registerBountyIncreased st e"

definition step_store :: "store \<Rightarrow> store_call \<Rightarrow> store" where
  "step_store st c = (case call_store st c of Inl e \<Rightarrow> st | Inr st' \<Rightarrow> st')"

definition run_store :: "store \<Rightarrow> store_call list \<Rightarrow> store" where
  "run_store st cs = foldl step_store st cs"

fun call_id :: "store_call \<Rightarrow> string" where
  "call_id (RegisterBountyPlaced e) = messageIdentifier e"
| "call_id (RegisterMessageDelivered e) = messageIdentifier e"
| "call_id (RegisterBountyClaimed e) = messageIdentifier e"
| "call_id (RegisterBountyIncreased e) = messageIdentifier e"

text \<open>
  The fields that a call assigns when a record already exists: the properties written
  after the spread of the stored record. \<open>registerBountyPlaced\<close> spreads the stored
  record last, so it assigns none of the stored fields.
\<close>

fun written_fields :: "store_call \<Rightarrow> string set" where
  "written_fields (RegisterBountyPlaced e) = {}"
| "written_fields (RegisterMessageDelivered e) = {''status'', ''execTransactionHash'', ''toChainId''}"
| "written_fields (RegisterBountyClaimed e) = {''status'', ''ackTransactionHash'', ''fromChainId''}"
| "written_fields (RegisterBountyIncreased e) = {''priceOfDeliveryGas'', ''priceOfAckGas''}"

text \<open>The record stored for an identifier, and one field of it.\<close>

definition bounty_at :: "store \<Rightarrow> string \<Rightarrow> json_object option" where
  "bounty_at st mid = redis st (bounty_key mid)"

definition field_at :: "store \<Rightarrow> string \<Rightarrow> string \<Rightarrow> json option" where
  "field_at st mid f = (case bounty_at st mid of None \<Rightarrow> None | Some r \<Rightarrow> r f)"

text \<open>
  The status a call writes, the statuses written for one identifier by a sequence of
  calls, in order, and the status the identifier's record holds before the sequence.
\<close>

fun call_status :: "store_call \<Rightarrow> BountyStatus option" where
  "call_status (RegisterBountyPlaced e) = Some BountyPlaced"
| "call_status (RegisterMessageDelivered e) = Some MessageDelivered"
| "call_status (RegisterBountyClaimed e) = Some BountyClaimed"
| "call_status (RegisterBountyIncreased e) = None"

definition written_statuses :: "string \<Rightarrow> store_call list \<Rightarrow> int list" where
  "written_statuses mid cs =
     map status_number (List.map_filter call_status (filter (\<lambda>c. call_id c = mid) cs))"

definition initial_statuses :: "store \<Rightarrow> string \<Rightarrow> int list" where
  "initial_statuses st mid = (case field_at st mid ''status'' of Some (JNum n) \<Rightarrow> [n] | _ \<Rightarrow> [])"

text \<open>
  The price a record holds under a field, as \<open>registerBountyIncreased\<close> reads it, and the
  calls that a list of \<open>BountyIncreased\<close> events makes.
\<close>

definition price_at :: "store \<Rightarrow> string \<Rightarrow> string \<Rightarrow> error + int" where
  "price_at st mid f = price_or_zero (field_at st mid f)"

definition increases :: "increased_event list \<Rightarrow> store_call list" where
  "increases evs = map RegisterBountyIncreased evs"

subsection \<open>Example inputs\<close>

definition example_store :: store where
  "example_store = \<lparr>chainId = Some ''2'', redis = Map.empty, published = []\<rparr>"

definition example_event :: "string \<Rightarrow> string \<Rightarrow> event_base" where
  "example_event mid txHash =
     \<lparr>messageIdentifier = mid, incentivesAddress = ''0xe5'', transactionHash = txHash\<rparr>"

definition example_incentive :: object where
  "example_incentive = [
     ''maxGasDelivery'' \<mapsto> J (JNum 200000),
     ''maxGasAck'' \<mapsto> J (JNum 100000),
     ''refundGasTo'' \<mapsto> J (JStr ''0xf0''),
     ''priceOfDeliveryGas'' \<mapsto> Big 5,
     ''priceOfAckGas'' \<mapsto> Big 7,
     ''targetDelta'' \<mapsto> Big 60]"

definition example_placed :: "string \<Rightarrow> string \<Rightarrow> placed_event" where
  "example_placed mid txHash =
     \<lparr>messageIdentifier = mid, incentivesAddress = ''0xe5'', transactionHash = txHash,
      incentive = example_incentive\<rparr>"

definition example_increase :: "string \<Rightarrow> int \<Rightarrow> int \<Rightarrow> increased_event" where
  "example_increase mid d a =
     \<lparr>messageIdentifier = mid, incentivesAddress = ''0xe5'', transactionHash = ''0x1c'',
      newDeliveryGasPrice = d, newAckGasPrice = a\<rparr>"

text \<open>A store that holds the sparse record of a delivery seen before its bounty.\<close>

definition example_sparse_store :: store where
  "example_sparse_store =
     \<lparr>chainId = Some ''2'',
      redis = [bounty_key ''0xaa'' \<mapsto>
                 [''messageIdentifier'' \<mapsto> JStr ''0xaa'', ''status'' \<mapsto> JNum 1,
                  ''execTransactionHash'' \<mapsto> JStr ''0xd1'', ''toChainId'' \<mapsto> JStr ''2'']],
      published = []\<rparr>"

text \<open>A store that holds a placed bounty with delivery price 5 and ack price 7.\<close>

definition example_placed_store :: store where
  "example_placed_store =
     \<lparr>chainId = Some ''1'',
      redis = [bounty_key ''0xaa'' \<mapsto>
                 [''messageIdentifier'' \<mapsto> JStr ''0xaa'', ''status'' \<mapsto> JNum 0,
                  ''priceOfDeliveryGas'' \<mapsto> JStr ''5'', ''priceOfAckGas'' \<mapsto> JStr ''7'',
                  ''targetDelta'' \<mapsto> JStr ''60'']],
      published = []\<rparr>"

section \<open>Facts about the codec\<close>

lemma of_char_digit_char: "d < 10 \<Longrightarrow> (of_char (digit_char d) :: nat) = 48 + d"
  by (simp add: digit_char_def)

lemma is_dec_digit_digit_char: "d < 10 \<Longrightarrow> is_dec_digit (digit_char d)"
  by (simp add: is_dec_digit_def of_char_digit_char)

lemma digit_char_not_minus: "d < 10 \<Longrightarrow> digit_char d \<noteq> CHR ''-''"
proof
  assume d: "d < 10" and "digit_char d = CHR ''-''"
  then have "(of_char (digit_char d) :: nat) = of_char CHR ''-''" by simp
  with d show False by (simp add: of_char_digit_char)
qed

lemma nat_to_dec_digits: "list_all is_dec_digit (nat_to_dec n)"
proof (induction n rule: nat_to_dec.induct)
  case (1 n)
  show ?case
  proof (cases "n < 10")
    case True
    then show ?thesis by (simp add: nat_to_dec.simps [of n] is_dec_digit_digit_char)
  next
    case False
    with 1 show ?thesis by (simp add: nat_to_dec.simps [of n] is_dec_digit_digit_char)
  qed
qed

lemma nat_to_dec_nonempty: "nat_to_dec n \<noteq> []"
  by (subst nat_to_dec.simps) simp

lemma nat_to_dec_hd: "\<exists>c t. nat_to_dec n = c # t \<and> c \<noteq> CHR ''-''"
proof -
  obtain c t where ct: "nat_to_dec n = c # t"
    using nat_to_dec_nonempty [of n] by (cases "nat_to_dec n") auto
  have "list_all is_dec_digit (c # t)" using nat_to_dec_digits [of n] ct by simp
  then have "is_dec_digit c" by simp
  then have "c \<noteq> CHR ''-''" by (auto simp add: is_dec_digit_def)
  with ct show ?thesis by blast
qed

lemma dec_value_snoc: "dec_value (s @ [c]) = 10 * dec_value s + ((of_char c :: nat) - 48)"
  by (simp add: dec_value_def)

lemma dec_value_nat_to_dec: "dec_value (nat_to_dec n) = n"
proof (induction n rule: nat_to_dec.induct)
  case (1 n)
  show ?case
  proof (cases "n < 10")
    case True
    then show ?thesis by (simp add: nat_to_dec.simps [of n] dec_value_def of_char_digit_char)
  next
    case False
    with 1 have "dec_value (nat_to_dec (n div 10)) = n div 10" by simp
    with False show ?thesis
      by (simp add: nat_to_dec.simps [of n] dec_value_snoc of_char_digit_char)
  qed
qed

lemma unsigned_value_nat_to_dec: "unsigned_value (nat_to_dec n) = Some n"
  by (simp add: unsigned_value_def is_dec_literal_def nat_to_dec_nonempty nat_to_dec_digits
      dec_value_nat_to_dec)

lemma BigNumber_roundtrip: "BigNumber_from_string (BigNumber_toString n) = Inr n"
proof (cases "n < 0")
  case True
  then show ?thesis
    by (simp add: BigNumber_from_string_def BigNumber_toString_def unsigned_value_nat_to_dec)
next
  case False
  obtain c t where ct: "nat_to_dec (nat n) = c # t" "c \<noteq> CHR ''-''"
    using nat_to_dec_hd by blast
  have "unsigned_value (c # t) = Some (nat n)"
    using unsigned_value_nat_to_dec [of "nat n"] ct by simp
  with False ct show ?thesis
    by (simp add: BigNumber_from_string_def BigNumber_toString_def)
qed

lemma BigNumber_toString_nonempty: "BigNumber_toString n \<noteq> []"
  by (simp add: BigNumber_toString_def nat_to_dec_nonempty)

lemma zero_lit: "BigNumber_from (JStr ''0'') = Inr 0"
  by (simp add: BigNumber_from_string_def unsigned_value_def is_dec_literal_def is_dec_digit_def dec_value_def)

lemma digit_char_table:
  "digit_char 0 = CHR ''0''" "digit_char 1 = CHR ''1''" "digit_char 2 = CHR ''2''"
  "digit_char 3 = CHR ''3''" "digit_char 4 = CHR ''4''" "digit_char 5 = CHR ''5''"
  "digit_char 6 = CHR ''6''" "digit_char 7 = CHR ''7''" "digit_char 8 = CHR ''8''"
  "digit_char 9 = CHR ''9''"
  by code_simp+

lemma bounty_key_inj: "bounty_key a = bounty_key b \<longleftrightarrow> a = b"
  by (simp add: bounty_key_def combineString_def)

section \<open>Facts about the store operations\<close>

lemma redis_store_set [simp]: "redis (store_set st k v) = (redis st)(k \<mapsto> v)"
  by (simp add: store_set_def postMessage_def)

lemma chainId_store_set [simp]: "chainId (store_set st k v) = chainId st"
  by (simp add: store_set_def postMessage_def)

lemma published_store_set [simp]:
  "published (store_set st k v) =
     published st @ [(''relayer:key'', [''key'' \<mapsto> JStr k, ''action'' \<mapsto> JStr ''set''])]"
  by (simp add: store_set_def postMessage_def combineString_def relayerStorePrefix_def wordConnecter_def)

lemma bounty_at_store_set [simp]:
  "bounty_at (store_set st (bounty_key a) v) b = (if a = b then Some v else bounty_at st b)"
  by (auto simp add: bounty_at_def bounty_key_inj)

lemma stringify_parse [simp]: "JSON_stringify (JSON_parse r) = r"
  by (rule ext) (simp add: JSON_stringify_def JSON_parse_def split: option.splits)

lemma stringify_upd [simp]: "JSON_stringify (m(k \<mapsto> v)) = (JSON_stringify m)(k := toJSON v)"
  by (rule ext) (simp add: JSON_stringify_def)

lemma stringify_empty [simp]: "JSON_stringify Map.empty = Map.empty"
  by (rule ext) (simp add: JSON_stringify_def)

lemma stringify_add_parse:
  "JSON_stringify (m ++ JSON_parse r) k = (case r k of Some v \<Rightarrow> Some v | None \<Rightarrow> JSON_stringify m k)"
  by (simp add: JSON_stringify_def JSON_parse_def map_add_def split: option.splits)

lemma toJSON_Math_max: "\<exists>y. toJSON (Math_max a b) = Some y"
  by (simp add: Math_max_def split: option.splits)

lemma chainId_step [simp]: "chainId (step_store st c) = chainId st"
  by (cases c)
     (auto simp add: step_store_def registerBountyPlaced_def registerMessageDelivered_def
        registerBountyClaimed_def registerBountyIncreased_def Let_def
        split: option.splits sum.splits)

lemma step_other_id: "call_id c \<noteq> mid \<Longrightarrow> bounty_at (step_store st c) mid = bounty_at st mid"
  by (cases c)
     (auto simp add: step_store_def registerBountyPlaced_def registerMessageDelivered_def
        registerBountyClaimed_def registerBountyIncreased_def Let_def
        split: option.splits sum.splits)

lemma step_same_id:
  assumes "bounty_at st (call_id c) = Some r" and "r f = Some v"
  shows "\<exists>r'. bounty_at (step_store st c) (call_id c) = Some r' \<and> r' f \<noteq> None \<and>
           (f \<notin> written_fields c \<longrightarrow> r' f = Some v)"
proof (cases c)
  case (RegisterBountyPlaced e)
  with assms show ?thesis
    by (auto simp add: step_store_def registerBountyPlaced_def store_get_def Let_def
          bounty_at_def [symmetric] stringify_add_parse split: option.splits)
next
  case (RegisterMessageDelivered e)
  with assms show ?thesis
    by (auto simp add: step_store_def registerMessageDelivered_def Let_def
          bounty_at_def [symmetric] toJSON_Math_max JSON_stringify_def JSON_parse_def split: option.splits)
next
  case (RegisterBountyClaimed e)
  with assms show ?thesis
    by (auto simp add: step_store_def registerBountyClaimed_def Let_def
          bounty_at_def [symmetric] toJSON_Math_max JSON_stringify_def JSON_parse_def split: option.splits)
next
  case (RegisterBountyIncreased e)
  with assms show ?thesis
    by (auto simp add: step_store_def registerBountyIncreased_def Let_def
          bounty_at_def [symmetric] JSON_stringify_def JSON_parse_def split: option.splits sum.splits)
qed

lemma run_store_Cons [simp]: "run_store st (c # cs) = run_store (step_store st c) cs"
  by (simp add: run_store_def)

lemma run_store_Nil [simp]: "run_store st [] = st"
  by (simp add: run_store_def)

lemma run_store_append: "run_store st (xs @ ys) = run_store (run_store st xs) ys"
  by (simp add: run_store_def)

lemma chainId_run [simp]: "chainId (run_store st cs) = chainId st"
  by (induction cs arbitrary: st) simp_all

lemma run_frame:
  assumes "bounty_at st mid = Some r" and "r f = Some v"
  shows "\<exists>r'. bounty_at (run_store st cs) mid = Some r' \<and> r' f \<noteq> None \<and>
           (f \<notin> (\<Union>c \<in> {c \<in> set cs. call_id c = mid}. written_fields c) \<longrightarrow> r' f = Some v)"
  using assms
proof (induction cs arbitrary: st r v)
  case Nil
  then show ?case by simp
next
  case (Cons c cs)
  show ?case
  proof (cases "call_id c = mid")
    case False
    then have "bounty_at (step_store st c) mid = Some r"
      using Cons.prems by (simp add: step_other_id)
    from Cons.IH [OF this Cons.prems(2)] False show ?thesis by auto
  next
    case True
    with step_same_id [of st c r f v] Cons.prems
    obtain r1 v1 where r1: "bounty_at (step_store st c) mid = Some r1" "r1 f = Some v1"
        "f \<notin> written_fields c \<longrightarrow> v1 = v"
      by auto
    from Cons.IH [OF r1(1) r1(2)] r1(3) True show ?thesis by auto
  qed
qed

lemma placed_creates:
  assumes "chainId st = Some cid" "bounty_at st (messageIdentifier e) = None"
  shows "\<exists>st'. registerBountyPlaced st e = Inr st' \<and>
           bounty_at st' (messageIdentifier e) = Some (JSON_stringify (placed_bounty cid e))"
  using assms
  by (simp add: registerBountyPlaced_def store_get_def bounty_at_def [symmetric] Let_def)

lemma placed_merges:
  assumes "chainId st = Some cid" "bounty_at st (messageIdentifier e) = Some r"
  shows "\<exists>st' r'. registerBountyPlaced st e = Inr st' \<and> bounty_at st' (messageIdentifier e) = Some r' \<and>
           (\<forall>k. r' k = (case r k of Some v \<Rightarrow> Some v | None \<Rightarrow> JSON_stringify (placed_bounty cid e) k))"
  using assms
  by (simp add: registerBountyPlaced_def store_get_def bounty_at_def [symmetric] Let_def stringify_add_parse)


lemma getBounty_missing:
  assumes "bounty_at st mid = Some r"
      and "r ''priceOfDeliveryGas'' = None \<or> r ''priceOfAckGas'' = None \<or> r ''targetDelta'' = None"
  shows "getBounty st mid = Inr None"
  using assms
  by (auto simp add: getBounty_def bounty_at_def split: option.splits)

lemma delivered_sparse:
  assumes "chainId st = Some cid" "bounty_at st (messageIdentifier ev) = None"
  shows "\<exists>st'. registerMessageDelivered st ev = Inr st' \<and>
           bounty_at st' (messageIdentifier ev) =
             Some [''messageIdentifier'' \<mapsto> JStr (messageIdentifier ev),
                   ''status'' \<mapsto> JNum 1,
                   ''execTransactionHash'' \<mapsto> JStr (transactionHash ev),
                   ''toChainId'' \<mapsto> JStr cid]"
  using assms
  by (simp add: registerMessageDelivered_def bounty_at_def [symmetric] Let_def)

lemma getBounty_some:
  assumes "getBounty st mid = Inr (Some b)"
  shows "\<exists>r d a t d' a' t'. bounty_at st mid = Some r \<and>
           r ''priceOfDeliveryGas'' = Some d \<and> r ''priceOfAckGas'' = Some a \<and> r ''targetDelta'' = Some t \<and>
           BigNumber_from d = Inr d' \<and> BigNumber_from a = Inr a' \<and> BigNumber_from t = Inr t' \<and>
           b = (JSON_parse r)(''priceOfDeliveryGas'' \<mapsto> Big d', ''priceOfAckGas'' \<mapsto> Big a',
                              ''targetDelta'' \<mapsto> Big t')"
  using assms
  by (auto simp add: getBounty_def bounty_at_def split: option.splits if_splits sum.splits)


lemma status_number_nonneg: "0 \<le> status_number s"
  by (cases s) simp_all

lemma field_at_step_other: "call_id c \<noteq> mid \<Longrightarrow> field_at (step_store st c) mid f = field_at st mid f"
  by (simp add: field_at_def step_other_id)

lemma status_step_create:
  assumes "chainId st = Some cid" "call_status c = Some s" "bounty_at st (call_id c) = None"
  shows "field_at (step_store st c) (call_id c) ''status'' = Some (JNum (status_number s))"
  using assms
  by (cases c)
     (auto simp add: step_store_def field_at_def registerBountyPlaced_def registerMessageDelivered_def
        registerBountyClaimed_def store_get_def placed_bounty_def Let_def bounty_at_def [symmetric])

lemma status_step_merge:
  assumes "chainId st = Some cid" "call_status c = Some s"
      and "field_at st (call_id c) ''status'' = Some (JNum n)" "0 \<le> n"
  shows "field_at (step_store st c) (call_id c) ''status'' = Some (JNum (max n (status_number s)))"
proof -
  from assms(3) obtain r where r: "bounty_at st (call_id c) = Some r" "r ''status'' = Some (JNum n)"
    by (auto simp add: field_at_def split: option.splits)
  show ?thesis
  proof (cases c)
    case (RegisterBountyPlaced e)
    with assms r show ?thesis
      by (auto simp add: step_store_def field_at_def registerBountyPlaced_def store_get_def Let_def
            bounty_at_def [symmetric] stringify_add_parse)
  next
    case (RegisterMessageDelivered e)
    with assms r show ?thesis
      by (auto simp add: step_store_def field_at_def registerMessageDelivered_def Let_def
            bounty_at_def [symmetric] Math_max_def get_prop_def JSON_parse_def)
  next
    case (RegisterBountyClaimed e)
    with assms r show ?thesis
      by (auto simp add: step_store_def field_at_def registerBountyClaimed_def Let_def
            bounty_at_def [symmetric] Math_max_def get_prop_def JSON_parse_def)
  next
    case (RegisterBountyIncreased e)
    with assms show ?thesis by simp
  qed
qed

lemma written_statuses_Nil [simp]: "written_statuses mid [] = []"
  by (simp add: written_statuses_def List.map_filter_simps)

lemma written_statuses_Cons:
  "written_statuses mid (c # cs) =
     (if call_id c = mid then (case call_status c of Some s \<Rightarrow> [status_number s] | None \<Rightarrow> []) else [])
     @ written_statuses mid cs"
  by (simp add: written_statuses_def List.map_filter_simps split: option.splits)

lemma Max_insert_max:
  "finite A \<Longrightarrow> Max (insert (max n s) A) = Max (insert n (insert s A))"
  by (cases "A = {}") (simp_all add: max.assoc)

lemma status_run_merge:
  assumes "chainId st = Some cid"
      and "\<forall>c \<in> set cs. call_id c = mid \<longrightarrow> call_status c \<noteq> None"
      and "field_at st mid ''status'' = Some (JNum n)" "0 \<le> n"
  shows "field_at (run_store st cs) mid ''status'' =
           Some (JNum (Max (insert n (set (written_statuses mid cs)))))"
  using assms
proof (induction cs arbitrary: st n)
  case Nil
  then show ?case by simp
next
  case (Cons c cs)
  show ?case
  proof (cases "call_id c = mid")
    case False
    with Cons.prems have "field_at (step_store st c) mid ''status'' = Some (JNum n)"
      by (simp add: field_at_step_other)
    with Cons.IH [of "step_store st c" n] Cons.prems False show ?thesis
      by (simp add: written_statuses_Cons)
  next
    case True
    with Cons.prems obtain s where s: "call_status c = Some s" by auto
    have st: "field_at (step_store st c) mid ''status'' = Some (JNum (max n (status_number s)))"
      using status_step_merge [OF Cons.prems(1) s] Cons.prems(3,4) True by simp
    have "0 \<le> max n (status_number s)" using Cons.prems(4) by simp
    with Cons.IH [of "step_store st c" "max n (status_number s)"] Cons.prems st
    have "field_at (run_store (step_store st c) cs) mid ''status'' =
            Some (JNum (Max (insert (max n (status_number s)) (set (written_statuses mid cs)))))"
      by simp
    then show ?thesis using True s
      by (simp add: written_statuses_Cons Max_insert_max)
  qed
qed

lemma status_run_create:
  assumes "chainId st = Some cid"
      and "\<forall>c \<in> set cs. call_id c = mid \<longrightarrow> call_status c \<noteq> None"
      and "bounty_at st mid = None" "written_statuses mid cs \<noteq> []"
  shows "field_at (run_store st cs) mid ''status'' =
           Some (JNum (Max (set (written_statuses mid cs))))"
  using assms
proof (induction cs arbitrary: st)
  case Nil
  then show ?case by simp
next
  case (Cons c cs)
  show ?case
  proof (cases "call_id c = mid")
    case False
    with Cons.prems have "bounty_at (step_store st c) mid = None"
      by (simp add: step_other_id)
    with Cons.IH [of "step_store st c"] Cons.prems False show ?thesis
      by (simp add: written_statuses_Cons)
  next
    case True
    with Cons.prems obtain s where s: "call_status c = Some s" by auto
    have st: "field_at (step_store st c) mid ''status'' = Some (JNum (status_number s))"
      using status_step_create [OF Cons.prems(1) s] Cons.prems(3) True by simp
    have "field_at (run_store (step_store st c) cs) mid ''status'' =
            Some (JNum (Max (insert (status_number s) (set (written_statuses mid cs)))))"
      using status_run_merge [of "step_store st c" cid cs mid "status_number s"] Cons.prems st
      by (simp add: status_number_nonneg)
    then show ?thesis using True s
      by (simp add: written_statuses_Cons)
  qed
qed

lemma valid_step:
  assumes "chainId st = Some cid" "call_id c = mid \<longrightarrow> call_status c \<noteq> None"
      and "bounty_at st mid = None \<or> (\<exists>n\<ge>0. field_at st mid ''status'' = Some (JNum n))"
  shows "bounty_at (step_store st c) mid = None \<or>
           (\<exists>n\<ge>0. field_at (step_store st c) mid ''status'' = Some (JNum n))"
proof (cases "call_id c = mid")
  case False
  with assms(3) show ?thesis by (simp add: step_other_id field_at_step_other)
next
  case True
  with assms(2) obtain s where s: "call_status c = Some s" by auto
  from assms(3) show ?thesis
  proof
    assume "bounty_at st mid = None"
    with status_step_create [OF assms(1) s] True status_number_nonneg [of s]
    show ?thesis by auto
  next
    assume "\<exists>n\<ge>0. field_at st mid ''status'' = Some (JNum n)"
    then obtain n where n: "0 \<le> n" "field_at st mid ''status'' = Some (JNum n)" by blast
    with status_step_merge [OF assms(1) s, of n] True
    have "field_at (step_store st c) mid ''status'' = Some (JNum (max n (status_number s)))" by simp
    moreover have "0 \<le> max n (status_number s)" using n(1) by simp
    ultimately show ?thesis by blast
  qed
qed

lemma valid_run:
  assumes "chainId st = Some cid"
      and "\<forall>c \<in> set cs. call_id c = mid \<longrightarrow> call_status c \<noteq> None"
      and "bounty_at st mid = None \<or> (\<exists>n\<ge>0. field_at st mid ''status'' = Some (JNum n))"
  shows "bounty_at (run_store st cs) mid = None \<or>
           (\<exists>n\<ge>0. field_at (run_store st cs) mid ''status'' = Some (JNum n))"
  using assms
proof (induction cs arbitrary: st)
  case Nil
  then show ?case by simp
next
  case (Cons c cs)
  have "bounty_at (step_store st c) mid = None \<or>
           (\<exists>n\<ge>0. field_at (step_store st c) mid ''status'' = Some (JNum n))"
    using valid_step [OF Cons.prems(1) _ Cons.prems(3), of c] Cons.prems(2) by simp
  with Cons.IH [of "step_store st c"] Cons.prems show ?case by simp
qed

lemma status_never_decreases:
  assumes "chainId st = Some cid"
      and "\<forall>c \<in> set cs. call_id c = mid \<longrightarrow> call_status c \<noteq> None"
      and "bounty_at st mid = None \<or> (\<exists>n\<ge>0. field_at st mid ''status'' = Some (JNum n))"
      and "field_at (run_store st (take k cs)) mid ''status'' = Some (JNum a)"
  shows "\<exists>b. field_at (run_store st cs) mid ''status'' = Some (JNum b) \<and> a \<le> b"
proof -
  let ?st1 = "run_store st (take k cs)"
  have split: "run_store st cs = run_store ?st1 (drop k cs)"
    using run_store_append [of st "take k cs" "drop k cs"] by simp
  have three1: "\<forall>c \<in> set (take k cs). call_id c = mid \<longrightarrow> call_status c \<noteq> None"
    using assms(2) by (meson in_set_takeD)
  have three2: "\<forall>c \<in> set (drop k cs). call_id c = mid \<longrightarrow> call_status c \<noteq> None"
    using assms(2) by (meson in_set_dropD)
  have "bounty_at ?st1 mid = None \<or> (\<exists>n\<ge>0. field_at ?st1 mid ''status'' = Some (JNum n))"
    by (rule valid_run [OF assms(1) three1 assms(3)])
  with assms(4) have a: "0 \<le> a" by (auto simp add: field_at_def)
  have "field_at (run_store ?st1 (drop k cs)) mid ''status'' =
          Some (JNum (Max (insert a (set (written_statuses mid (drop k cs))))))"
    using status_run_merge [of ?st1 cid "drop k cs" mid a] assms(1,4) three2 a by simp
  moreover have "a \<le> Max (insert a (set (written_statuses mid (drop k cs))))"
    by simp
  ultimately show ?thesis using split by auto
qed


lemma price_or_zero_toString [simp]:
  "price_or_zero (Some (JStr (BigNumber_toString n))) = Inr n"
  by (simp add: price_or_zero_def BigNumber_roundtrip)

lemma increased_step:
  assumes "chainId st = Some cid" "bounty_at st (messageIdentifier ev) = Some r"
      and "price_at st (messageIdentifier ev) ''priceOfDeliveryGas'' = Inr d"
      and "price_at st (messageIdentifier ev) ''priceOfAckGas'' = Inr a"
  shows "registerBountyIncreased st ev =
           Inr (if d < newDeliveryGasPrice ev \<or> a < newAckGasPrice ev
                then store_set st (bounty_key (messageIdentifier ev))
                       (r(''priceOfDeliveryGas'' \<mapsto> JStr (BigNumber_toString (max d (newDeliveryGasPrice ev))),
                          ''priceOfAckGas'' \<mapsto> JStr (BigNumber_toString (max a (newAckGasPrice ev)))))
                else st)"
  using assms
  by (auto simp add: registerBountyIncreased_def price_at_def field_at_def Let_def
        bounty_at_def [symmetric] max_def)

lemma increased_step_prices:
  assumes "chainId st = Some cid" "bounty_at st (messageIdentifier ev) = Some r"
      and "price_at st (messageIdentifier ev) ''priceOfDeliveryGas'' = Inr d"
      and "price_at st (messageIdentifier ev) ''priceOfAckGas'' = Inr a"
  shows "bounty_at (step_store st (RegisterBountyIncreased ev)) (messageIdentifier ev) \<noteq> None
       \<and> price_at (step_store st (RegisterBountyIncreased ev)) (messageIdentifier ev) ''priceOfDeliveryGas''
           = Inr (max d (newDeliveryGasPrice ev))
       \<and> price_at (step_store st (RegisterBountyIncreased ev)) (messageIdentifier ev) ''priceOfAckGas''
           = Inr (max a (newAckGasPrice ev))"
proof (cases "d < newDeliveryGasPrice ev \<or> a < newAckGasPrice ev")
  case True
  with increased_step [OF assms] show ?thesis
    by (simp add: step_store_def price_at_def field_at_def)
next
  case False
  with increased_step [OF assms] assms show ?thesis
    by (simp add: step_store_def max_def)
qed

lemma increased_run:
  assumes "chainId st = Some cid" "\<forall>ev \<in> set evs. messageIdentifier ev = mid"
      and "bounty_at st mid \<noteq> None"
      and "price_at st mid ''priceOfDeliveryGas'' = Inr d"
      and "price_at st mid ''priceOfAckGas'' = Inr a"
  shows "bounty_at (run_store st (increases evs)) mid \<noteq> None
       \<and> price_at (run_store st (increases evs)) mid ''priceOfDeliveryGas''
           = Inr (Max (insert d (newDeliveryGasPrice ` set evs)))
       \<and> price_at (run_store st (increases evs)) mid ''priceOfAckGas''
           = Inr (Max (insert a (newAckGasPrice ` set evs)))"
  using assms
proof (induction evs arbitrary: st d a)
  case Nil
  then show ?case by (simp add: increases_def)
next
  case (Cons ev evs)
  from Cons.prems obtain r where r: "bounty_at st (messageIdentifier ev) = Some r"
      and mid: "messageIdentifier ev = mid" by auto
  let ?st = "step_store st (RegisterBountyIncreased ev)"
  have step: "bounty_at ?st mid \<noteq> None"
      "price_at ?st mid ''priceOfDeliveryGas'' = Inr (max d (newDeliveryGasPrice ev))"
      "price_at ?st mid ''priceOfAckGas'' = Inr (max a (newAckGasPrice ev))"
    using increased_step_prices [OF Cons.prems(1) r, of d a] Cons.prems(4,5) mid by simp_all
  have "chainId ?st = Some cid" using Cons.prems(1) by simp
  from Cons.IH [OF this _ step] Cons.prems(2)
  have "bounty_at (run_store ?st (increases evs)) mid \<noteq> None
       \<and> price_at (run_store ?st (increases evs)) mid ''priceOfDeliveryGas''
           = Inr (Max (insert (max d (newDeliveryGasPrice ev)) (newDeliveryGasPrice ` set evs)))
       \<and> price_at (run_store ?st (increases evs)) mid ''priceOfAckGas''
           = Inr (Max (insert (max a (newAckGasPrice ev)) (newAckGasPrice ` set evs)))"
    by simp
  then show ?case
    by (simp add: increases_def Max_insert_max)
qed

section \<open>Monotonic status (C1)\<close>

lemma written_statuses_step:
  "set (written_statuses mid (c # cs)) =
          (if call_id c = mid
           then (case call_status c of Some s \<Rightarrow> {status_number s} | None \<Rightarrow> {}) else {})
          \<union> set (written_statuses mid cs)"
proof (cases "call_id c = mid")
  case False
  then show ?thesis by (simp add: written_statuses_Cons)
next
  case True
  show ?thesis
  proof (cases "call_status c")
    case None
    with True show ?thesis by (simp add: written_statuses_Cons)
  next
    case (Some s)
    with True show ?thesis by (simp add: written_statuses_Cons)
  qed
qed

lemma set_written_statuses:
  "set (written_statuses mid cs) =
     (\<Union>c \<in> set cs. if call_id c = mid
                      then (case call_status c of Some s \<Rightarrow> {status_number s} | None \<Rightarrow> {})
                      else {})"
proof (induction cs)
  case Nil
  show ?case by simp
next
  case (Cons c cs)
  show ?case unfolding written_statuses_step Cons.IH by simp
qed

lemma written_statuses_reorder:
  "set cs' = set cs \<Longrightarrow> set (written_statuses mid cs') = set (written_statuses mid cs)"
  by (simp add: set_written_statuses)

lemma status_final:
  assumes "chainId st = Some cid"
      and "\<forall>c \<in> set cs. call_id c = mid \<longrightarrow> call_status c \<noteq> None"
      and "bounty_at st mid = None \<or> (\<exists>n\<ge>0. field_at st mid ''status'' = Some (JNum n))"
      and "initial_statuses st mid @ written_statuses mid cs \<noteq> []"
  shows "field_at (run_store st cs) mid ''status'' =
           Some (JNum (Max (set (initial_statuses st mid @ written_statuses mid cs))))"
  using assms(3)
proof
  assume none: "bounty_at st mid = None"
  then have init: "initial_statuses st mid = []"
    by (simp add: initial_statuses_def field_at_def)
  with assms(4) have "written_statuses mid cs \<noteq> []" by simp
  from status_run_create [OF assms(1,2) none this] init show ?thesis by simp
next
  assume "\<exists>n\<ge>0. field_at st mid ''status'' = Some (JNum n)"
  then obtain n where n: "0 \<le> n" "field_at st mid ''status'' = Some (JNum n)" by blast
  then have init: "initial_statuses st mid = [n]" by (simp add: initial_statuses_def)
  from status_run_merge [OF assms(1,2) n(2) n(1)] init show ?thesis by simp
qed


text \<open>
  Where the status is the maximum. On a writable store, take any sequence of calls, on any
  identifiers and in any order, in which the calls for the identifier \<open>mid\<close> are
  \<open>registerBountyPlaced\<close>, \<open>registerMessageDelivered\<close> and \<open>registerBountyClaimed\<close>,
  from a store that holds no record for \<open>mid\<close> or one with a status number. The status
  stored at the end is the maximum of all statuses written for \<open>mid\<close> (the one the record
  started with and the one of every call); it is the same for every other order of arrival
  of the same calls; and the status stored after any prefix of the sequence is at most the
  final one, so it never decreases.
\<close>

lemma status_is_max_of_written:
  assumes "chainId st = Some cid"
      and "\<forall>c \<in> set cs. call_id c = mid \<longrightarrow> call_status c \<noteq> None"
      and "bounty_at st mid = None \<or> (\<exists>n\<ge>0. field_at st mid ''status'' = Some (JNum n))"
      and "initial_statuses st mid @ written_statuses mid cs \<noteq> []"
  shows "field_at (run_store st cs) mid ''status'' =
           Some (JNum (Max (set (initial_statuses st mid @ written_statuses mid cs))))
         \<and> (\<forall>cs'. set cs' = set cs \<longrightarrow>
               field_at (run_store st cs') mid ''status'' = field_at (run_store st cs) mid ''status'')
         \<and> (\<forall>k a. field_at (run_store st (take k cs)) mid ''status'' = Some (JNum a) \<longrightarrow>
               (\<exists>b. field_at (run_store st cs) mid ''status'' = Some (JNum b) \<and> a \<le> b))"
proof (intro conjI allI impI)
  show "field_at (run_store st cs) mid ''status'' =
           Some (JNum (Max (set (initial_statuses st mid @ written_statuses mid cs))))"
    by (rule status_final [OF assms])
next
  fix cs' :: "store_call list"
  assume same: "set cs' = set cs"
  have w: "set (written_statuses mid cs') = set (written_statuses mid cs)"
    by (rule written_statuses_reorder [OF same])
  have a2: "\<forall>c \<in> set cs'. call_id c = mid \<longrightarrow> call_status c \<noteq> None"
    using assms(2) same by simp
  have a4: "initial_statuses st mid @ written_statuses mid cs' \<noteq> []"
  proof
    assume "initial_statuses st mid @ written_statuses mid cs' = []"
    then have "initial_statuses st mid = []" "set (written_statuses mid cs') = {}" by simp_all
    with w have "initial_statuses st mid @ written_statuses mid cs = []" by simp
    with assms(4) show False by simp
  qed
  have "field_at (run_store st cs') mid ''status'' =
           Some (JNum (Max (set (initial_statuses st mid @ written_statuses mid cs'))))"
    by (rule status_final [OF assms(1) a2 assms(3) a4])
  moreover have "field_at (run_store st cs) mid ''status'' =
           Some (JNum (Max (set (initial_statuses st mid @ written_statuses mid cs))))"
    by (rule status_final [OF assms])
  ultimately show "field_at (run_store st cs') mid ''status'' = field_at (run_store st cs) mid ''status''"
    using w by simp
next
  fix k a
  assume "field_at (run_store st (take k cs)) mid ''status'' = Some (JNum a)"
  then show "\<exists>b. field_at (run_store st cs) mid ''status'' = Some (JNum b) \<and> a \<le> b"
    by (rule status_never_decreases [OF assms(1,2,3)])
qed

lemma status_is_max_of_written_example:
  "chainId example_store = Some ''2''
   \<and> bounty_at example_store ''0xaa'' = None
   \<and> field_at (run_store example_store
        [RegisterMessageDelivered (example_event ''0xaa'' ''0xd1''),
         RegisterBountyClaimed (example_event ''0xbb'' ''0xc2''),
         RegisterBountyPlaced (example_placed ''0xaa'' ''0xb1''),
         RegisterBountyIncreased (example_increase ''0xbb'' 1 1)]) ''0xaa'' ''status'' = Some (JNum 1)
   \<and> field_at (run_store example_store
        [RegisterBountyPlaced (example_placed ''0xaa'' ''0xb1''),
         RegisterBountyIncreased (example_increase ''0xbb'' 1 1),
         RegisterBountyClaimed (example_event ''0xbb'' ''0xc2''),
         RegisterMessageDelivered (example_event ''0xaa'' ''0xd1'')]) ''0xaa'' ''status'' = Some (JNum 1)"
proof -
  let ?cs = "[RegisterMessageDelivered (example_event ''0xaa'' ''0xd1''),
         RegisterBountyClaimed (example_event ''0xbb'' ''0xc2''),
         RegisterBountyPlaced (example_placed ''0xaa'' ''0xb1''),
         RegisterBountyIncreased (example_increase ''0xbb'' 1 1)]"
  let ?cs' = "[RegisterBountyPlaced (example_placed ''0xaa'' ''0xb1''),
         RegisterBountyIncreased (example_increase ''0xbb'' 1 1),
         RegisterBountyClaimed (example_event ''0xbb'' ''0xc2''),
         RegisterMessageDelivered (example_event ''0xaa'' ''0xd1'')]"
  have h1: "chainId example_store = Some ''2''" by (simp add: example_store_def)
  have h2: "\<forall>c \<in> set ?cs. call_id c = ''0xaa'' \<longrightarrow> call_status c \<noteq> None"
    by (simp add: example_event_def example_placed_def example_increase_def)
  have h3: "bounty_at example_store ''0xaa'' = None" by (simp add: example_store_def bounty_at_def)
  have w: "written_statuses ''0xaa'' ?cs = [1, 0]"
    by (simp add: written_statuses_def List.map_filter_simps example_event_def example_placed_def
          example_increase_def)
  have i: "initial_statuses example_store ''0xaa'' = []"
    by (simp add: initial_statuses_def field_at_def h3)
  have h4: "initial_statuses example_store ''0xaa'' @ written_statuses ''0xaa'' ?cs \<noteq> []"
    by (simp add: w)
  have same: "set ?cs' = set ?cs" by auto
  note t = status_is_max_of_written [OF h1 h2 disjI1 [OF h3] h4]
  from t have a: "field_at (run_store example_store ?cs) ''0xaa'' ''status'' = Some (JNum 1)"
    by (simp add: w i)
  from t same have "field_at (run_store example_store ?cs') ''0xaa'' ''status'' =
      field_at (run_store example_store ?cs) ''0xaa'' ''status''"
    by blast
  with a have b: "field_at (run_store example_store ?cs') ''0xaa'' ''status'' = Some (JNum 1)"
    by simp
  from h1 h3 a b show ?thesis by blast
qed

text \<open>
  Claim C1 says that, for every identifier and any interleaving of \<open>registerBountyPlaced\<close>,
  \<open>registerMessageDelivered\<close> and \<open>registerBountyClaimed\<close>, the status stored at the end
  is the maximum of the statuses written. The code does not do this on the record that
  \<open>registerBountyIncreased\<close> creates for an identifier it has not seen, which has no
  status. On that record \<open>registerMessageDelivered\<close> computes
  \<open>Math.max(undefined, MessageDelivered)\<close>, which is \<open>NaN\<close>, and stores the status
  \<open>null\<close>; a later \<open>registerBountyPlaced\<close> keeps the stored \<open>null\<close>. The statuses
  written are 1 (\<open>MessageDelivered\<close>) and 0 (\<open>BountyPlaced\<close>), and the status stored
  after each of the two calls is \<open>null\<close>, not 1.
\<close>

theorem status_lost_on_record_without_status:
  "field_at (run_store example_store [RegisterBountyIncreased (example_increase ''0xaa'' 10 7)])
      ''0xaa'' ''status'' = None
   \<and> written_statuses ''0xaa''
        [RegisterMessageDelivered (example_event ''0xaa'' ''0xd1''),
         RegisterBountyPlaced (example_placed ''0xaa'' ''0xb1'')] = [1, 0]
   \<and> field_at (run_store (run_store example_store [RegisterBountyIncreased (example_increase ''0xaa'' 10 7)])
        [RegisterMessageDelivered (example_event ''0xaa'' ''0xd1'')]) ''0xaa'' ''status'' = Some JNull
   \<and> field_at (run_store (run_store example_store [RegisterBountyIncreased (example_increase ''0xaa'' 10 7)])
        [RegisterMessageDelivered (example_event ''0xaa'' ''0xd1''),
         RegisterBountyPlaced (example_placed ''0xaa'' ''0xb1'')]) ''0xaa'' ''status'' = Some JNull"
  by (simp add: written_statuses_def List.map_filter_simps step_store_def registerBountyIncreased_def
        registerMessageDelivered_def registerBountyPlaced_def store_get_def Let_def field_at_def
        example_store_def example_increase_def example_event_def example_placed_def
        Math_max_def get_prop_def JSON_parse_def JSON_stringify_def map_add_def placed_bounty_def)

section \<open>Monotonic gas prices (C2)\<close>

text \<open>
  Claim C2. On a writable store that holds a record for \<open>mid\<close> whose two prices read as
  the integers \<open>d\<close> and \<open>a\<close> (a missing or \<open>null\<close> price reads as 0), after any
  sequence of \<open>registerBountyIncreased\<close> calls for \<open>mid\<close> the stored delivery price
  is the maximum of \<open>d\<close> and all \<open>newDeliveryGasPrice\<close> arguments, and the stored ack
  price the maximum of \<open>a\<close> and all \<open>newAckGasPrice\<close> arguments. One call rewrites
  the record (one \<open>set\<close>, with both prices as decimal texts of the maxima) exactly when
  one of the two new prices is strictly above the stored one; otherwise it returns the store
  as it is.
\<close>

theorem bounty_increased_is_fieldwise_max:
  assumes "chainId st = Some cid"
      and "\<forall>e \<in> set evs. messageIdentifier e = mid"
      and "messageIdentifier ev = mid"
      and "bounty_at st mid = Some r"
      and "price_at st mid ''priceOfDeliveryGas'' = Inr d"
      and "price_at st mid ''priceOfAckGas'' = Inr a"
  shows "bounty_at (run_store st (increases evs)) mid \<noteq> None
       \<and> price_at (run_store st (increases evs)) mid ''priceOfDeliveryGas''
           = Inr (Max (insert d (newDeliveryGasPrice ` set evs)))
       \<and> price_at (run_store st (increases evs)) mid ''priceOfAckGas''
           = Inr (Max (insert a (newAckGasPrice ` set evs)))
       \<and> registerBountyIncreased st ev =
           Inr (if d < newDeliveryGasPrice ev \<or> a < newAckGasPrice ev
                then store_set st (bounty_key mid)
                       (r(''priceOfDeliveryGas'' \<mapsto> JStr (BigNumber_toString (max d (newDeliveryGasPrice ev))),
                          ''priceOfAckGas'' \<mapsto> JStr (BigNumber_toString (max a (newAckGasPrice ev)))))
                else st)"
proof -
  have "bounty_at st mid \<noteq> None" using assms(4) by simp
  from increased_run [OF assms(1,2) this assms(5,6)]
    increased_step [of st cid ev r d a] assms
  show ?thesis by simp
qed


lemma example_prices:
  "price_at example_placed_store ''0xaa'' ''priceOfDeliveryGas'' = Inr 5"
  "price_at example_placed_store ''0xaa'' ''priceOfAckGas'' = Inr 7"
  by (simp_all add: price_at_def field_at_def bounty_at_def example_placed_store_def price_or_zero_def
       BigNumber_from_string_def unsigned_value_def is_dec_literal_def is_dec_digit_def dec_value_def)

lemma example_decimals:
  "BigNumber_toString 5 = ''5''" "BigNumber_toString 7 = ''7''" "BigNumber_toString 8 = ''8''"
  "BigNumber_toString 10 = ''10''" "BigNumber_toString 20 = ''20''" "BigNumber_toString 25 = ''25''"
  by code_simp+

theorem bounty_increased_is_fieldwise_max_witness:
  "chainId example_placed_store = Some ''1''
   \<and> price_at example_placed_store ''0xaa'' ''priceOfDeliveryGas'' = Inr 5
   \<and> price_at example_placed_store ''0xaa'' ''priceOfAckGas'' = Inr 7
   \<and> price_at (run_store example_placed_store (increases
         [example_increase ''0xaa'' 10 7, example_increase ''0xaa'' 20 3,
          example_increase ''0xaa'' 15 8, example_increase ''0xaa'' 25 8]))
        ''0xaa'' ''priceOfDeliveryGas'' = Inr 25
   \<and> price_at (run_store example_placed_store (increases
         [example_increase ''0xaa'' 10 7, example_increase ''0xaa'' 20 3,
          example_increase ''0xaa'' 15 8, example_increase ''0xaa'' 25 8]))
        ''0xaa'' ''priceOfAckGas'' = Inr 8
   \<and> registerBountyIncreased example_placed_store (example_increase ''0xaa'' 5 7) = Inr example_placed_store
   \<and> field_at (run_store example_placed_store (increases
         [example_increase ''0xaa'' 10 7, example_increase ''0xaa'' 20 3,
          example_increase ''0xaa'' 15 8, example_increase ''0xaa'' 25 8]))
        ''0xaa'' ''priceOfDeliveryGas'' = Some (JStr ''25'')"
proof -
  let ?evs = "[example_increase ''0xaa'' 10 7, example_increase ''0xaa'' 20 3,
          example_increase ''0xaa'' 15 8, example_increase ''0xaa'' 25 8]"
  have h1: "chainId example_placed_store = Some ''1''" by (simp add: example_placed_store_def)
  have h2: "\<forall>e \<in> set ?evs. messageIdentifier e = ''0xaa''" by (simp add: example_increase_def)
  have h3: "messageIdentifier (example_increase ''0xaa'' 5 7) = ''0xaa''" by (simp add: example_increase_def)
  have h4: "bounty_at example_placed_store ''0xaa'' =
      Some [''messageIdentifier'' \<mapsto> JStr ''0xaa'', ''status'' \<mapsto> JNum 0,
            ''priceOfDeliveryGas'' \<mapsto> JStr ''5'', ''priceOfAckGas'' \<mapsto> JStr ''7'',
            ''targetDelta'' \<mapsto> JStr ''60'']"
    by (simp add: example_placed_store_def bounty_at_def)
  have stored: "field_at (run_store example_placed_store (increases ?evs))
        ''0xaa'' ''priceOfDeliveryGas'' = Some (JStr ''25'')"
    by (simp add: increases_def step_store_def registerBountyIncreased_def example_placed_store_def
        example_increase_def Let_def price_or_zero_def field_at_def example_decimals
        BigNumber_from_string_def unsigned_value_def is_dec_literal_def is_dec_digit_def dec_value_def
        bounty_at_def [symmetric])
  from bounty_increased_is_fieldwise_max [OF h1 h2 h3 h4 example_prices] h1 example_prices stored
  show ?thesis
    by (simp add: example_increase_def)
qed

section \<open>Field preservation under merge (C3)\<close>

lemma placed_bounty_stored:
  "JSON_stringify (placed_bounty cid e) =
     (\<lambda>k. if k \<in> {''maxGasDelivery'', ''maxGasAck'', ''refundGasTo'', ''priceOfDeliveryGas'',
                     ''priceOfAckGas'', ''targetDelta''}
          then (case incentive e k of None \<Rightarrow> None | Some x \<Rightarrow> toJSON x)
          else [''messageIdentifier'' \<mapsto> JStr (messageIdentifier e),
                ''fromChainId'' \<mapsto> JStr cid,
                ''status'' \<mapsto> JNum 0,
                ''address'' \<mapsto> JStr (incentivesAddress e),
                ''finalised'' \<mapsto> JBool False,
                ''submitTransactionHash'' \<mapsto> JStr (transactionHash e)] k)"
  by (rule ext) (simp add: placed_bounty_def JSON_stringify_def get_prop_def split: option.splits)

text \<open>
  Claim C3. \<open>registerBountyPlaced\<close> on a writable store that holds no record for the
  event's identifier stores this record: \<open>messageIdentifier\<close>, \<open>address\<close> and
  \<open>submitTransactionHash\<close> are the event's \<open>messageIdentifier\<close>, \<open>incentivesAddress\<close>
  and \<open>transactionHash\<close>; \<open>fromChainId\<close> is the chain id of the store; \<open>status\<close> is 0
  (\<open>BountyPlaced\<close>); \<open>finalised\<close> is false; each of \<open>maxGasDelivery\<close>, \<open>maxGasAck\<close>,
  \<open>refundGasTo\<close>, \<open>priceOfDeliveryGas\<close>, \<open>priceOfAckGas\<close> and \<open>targetDelta\<close> is the
  JSON text of the event's incentive field of that name, and is absent when the incentive
  lacks it; there is no other field. When a record \<open>r\<close> exists, the record it stores has
  every field of \<open>r\<close> with the value \<open>r\<close> gives it, and takes from that fresh record
  only the fields \<open>r\<close> lacks. For any sequence of the four bounty operations, on any
  identifiers: a field that the record of \<open>mid\<close> holds is still held at the end, and
  with the same value unless one of the calls for \<open>mid\<close> assigns that field.
\<close>

theorem fields_never_cleared:
  fixes st :: store and e :: placed_event
  defines "fresh \<equiv>
     (\<lambda>cid k. if k \<in> {''maxGasDelivery'', ''maxGasAck'', ''refundGasTo'', ''priceOfDeliveryGas'',
                     ''priceOfAckGas'', ''targetDelta''}
          then (case incentive e k of None \<Rightarrow> None | Some x \<Rightarrow> toJSON x)
          else [''messageIdentifier'' \<mapsto> JStr (messageIdentifier e),
                ''fromChainId'' \<mapsto> JStr cid,
                ''status'' \<mapsto> JNum 0,
                ''address'' \<mapsto> JStr (incentivesAddress e),
                ''finalised'' \<mapsto> JBool False,
                ''submitTransactionHash'' \<mapsto> JStr (transactionHash e)] k)"
  shows
  "(chainId st = Some cid \<and> bounty_at st (messageIdentifier e) = None \<longrightarrow>
      (\<exists>st'. registerBountyPlaced st e = Inr st' \<and>
         bounty_at st' (messageIdentifier e) = Some (fresh cid)))
   \<and> (chainId st = Some cid \<and> bounty_at st (messageIdentifier e) = Some r \<longrightarrow>
      (\<exists>st' r'. registerBountyPlaced st e = Inr st' \<and> bounty_at st' (messageIdentifier e) = Some r' \<and>
         (\<forall>k. r' k = (case r k of Some v \<Rightarrow> Some v | None \<Rightarrow> fresh cid k))))
   \<and> (bounty_at st mid = Some r \<and> r f = Some v \<longrightarrow>
      (\<exists>r'. bounty_at (run_store st cs) mid = Some r' \<and> r' f \<noteq> None \<and>
         (f \<notin> (\<Union>c \<in> {c \<in> set cs. call_id c = mid}. written_fields c) \<longrightarrow> r' f = Some v)))"
proof -
  have eq: "JSON_stringify (placed_bounty cid e) = fresh cid"
    unfolding fresh_def by (rule placed_bounty_stored)
  from placed_creates [of st cid e] placed_merges [of st cid e r] run_frame [of st mid r f v cs]
  show ?thesis unfolding eq by blast
qed


theorem fields_never_cleared_witness:
  "bounty_at example_store ''0xaa'' = None
   \<and> (\<exists>st'. registerBountyPlaced example_store (example_placed ''0xaa'' ''0xb1'') = Inr st' \<and>
         field_at st' ''0xaa'' ''messageIdentifier'' = Some (JStr ''0xaa'') \<and>
         field_at st' ''0xaa'' ''fromChainId'' = Some (JStr ''2'') \<and>
         field_at st' ''0xaa'' ''status'' = Some (JNum 0) \<and>
         field_at st' ''0xaa'' ''address'' = Some (JStr ''0xe5'') \<and>
         field_at st' ''0xaa'' ''finalised'' = Some (JBool False) \<and>
         field_at st' ''0xaa'' ''submitTransactionHash'' = Some (JStr ''0xb1'') \<and>
         field_at st' ''0xaa'' ''maxGasDelivery'' = Some (JNum 200000) \<and>
         field_at st' ''0xaa'' ''refundGasTo'' = Some (JStr ''0xf0'') \<and>
         field_at st' ''0xaa'' ''priceOfDeliveryGas'' = Some (JStr ''5'') \<and>
         field_at st' ''0xaa'' ''execTransactionHash'' = None)
   \<and> field_at example_sparse_store ''0xaa'' ''execTransactionHash'' = Some (JStr ''0xd1'')
   \<and> (\<exists>st'. registerBountyPlaced example_sparse_store (example_placed ''0xaa'' ''0xb1'') = Inr st' \<and>
         field_at st' ''0xaa'' ''status'' = Some (JNum 1) \<and>
         field_at st' ''0xaa'' ''execTransactionHash'' = Some (JStr ''0xd1'') \<and>
         field_at st' ''0xaa'' ''submitTransactionHash'' = Some (JStr ''0xb1'') \<and>
         field_at st' ''0xaa'' ''priceOfAckGas'' = Some (JStr ''7''))
   \<and> field_at (run_store example_sparse_store
         [RegisterBountyPlaced (example_placed ''0xaa'' ''0xb1''),
          RegisterBountyIncreased (example_increase ''0xaa'' 10 7),
          RegisterBountyClaimed (example_event ''0xaa'' ''0xc1'')])
        ''0xaa'' ''execTransactionHash'' = Some (JStr ''0xd1'')"
proof -
  let ?r = "[''messageIdentifier'' \<mapsto> JStr ''0xaa'', ''status'' \<mapsto> JNum 1,
             ''execTransactionHash'' \<mapsto> JStr ''0xd1'', ''toChainId'' \<mapsto> JStr ''2'']"
  let ?cs = "[RegisterBountyPlaced (example_placed ''0xaa'' ''0xb1''),
          RegisterBountyIncreased (example_increase ''0xaa'' 10 7),
          RegisterBountyClaimed (example_event ''0xaa'' ''0xc1'')]"
  let ?e = "example_placed ''0xaa'' ''0xb1''"
  have c0: "chainId example_store = Some ''2''" "chainId example_sparse_store = Some ''2''"
    by (simp_all add: example_store_def example_sparse_store_def)
  have m: "messageIdentifier ?e = ''0xaa''"
    by (simp add: example_placed_def)
  have b0: "bounty_at example_store ''0xaa'' = None"
    by (simp add: example_store_def bounty_at_def)
  have b1: "bounty_at example_sparse_store ''0xaa'' = Some ?r"
    by (simp add: example_sparse_store_def bounty_at_def)
  have created: "\<exists>st'. registerBountyPlaced example_store ?e = Inr st' \<and>
         field_at st' ''0xaa'' ''messageIdentifier'' = Some (JStr ''0xaa'') \<and>
         field_at st' ''0xaa'' ''fromChainId'' = Some (JStr ''2'') \<and>
         field_at st' ''0xaa'' ''status'' = Some (JNum 0) \<and>
         field_at st' ''0xaa'' ''address'' = Some (JStr ''0xe5'') \<and>
         field_at st' ''0xaa'' ''finalised'' = Some (JBool False) \<and>
         field_at st' ''0xaa'' ''submitTransactionHash'' = Some (JStr ''0xb1'') \<and>
         field_at st' ''0xaa'' ''maxGasDelivery'' = Some (JNum 200000) \<and>
         field_at st' ''0xaa'' ''refundGasTo'' = Some (JStr ''0xf0'') \<and>
         field_at st' ''0xaa'' ''priceOfDeliveryGas'' = Some (JStr ''5'') \<and>
         field_at st' ''0xaa'' ''execTransactionHash'' = None"
  proof -
    note t = fields_never_cleared [where st = example_store and cid = "''2''" and e = ?e,
               THEN conjunct1]
    from t c0(1) b0 m
    obtain st' r' where st': "registerBountyPlaced example_store ?e = Inr st'"
        "bounty_at st' ''0xaa'' = Some r'"
        "r' ''messageIdentifier'' = Some (JStr ''0xaa'')"
        "r' ''fromChainId'' = Some (JStr ''2'')"
        "r' ''status'' = Some (JNum 0)"
        "r' ''address'' = Some (JStr ''0xe5'')"
        "r' ''finalised'' = Some (JBool False)"
        "r' ''submitTransactionHash'' = Some (JStr ''0xb1'')"
        "r' ''maxGasDelivery'' = Some (JNum 200000)"
        "r' ''refundGasTo'' = Some (JStr ''0xf0'')"
        "r' ''priceOfDeliveryGas'' = Some (JStr ''5'')"
        "r' ''execTransactionHash'' = None"
      by (auto simp add: example_placed_def example_incentive_def example_decimals)
    then show ?thesis by (auto simp add: field_at_def)
  qed
  have merged: "\<exists>st'. registerBountyPlaced example_sparse_store ?e = Inr st' \<and>
         field_at st' ''0xaa'' ''status'' = Some (JNum 1) \<and>
         field_at st' ''0xaa'' ''execTransactionHash'' = Some (JStr ''0xd1'') \<and>
         field_at st' ''0xaa'' ''submitTransactionHash'' = Some (JStr ''0xb1'') \<and>
         field_at st' ''0xaa'' ''priceOfAckGas'' = Some (JStr ''7'')"
  proof -
    note t = fields_never_cleared [where st = example_sparse_store and cid = "''2''" and e = ?e
               and r = ?r, THEN conjunct2, THEN conjunct1]
    from t c0(2) b1 m
    obtain st' r' where st': "registerBountyPlaced example_sparse_store ?e = Inr st'"
        "bounty_at st' ''0xaa'' = Some r'"
        "r' ''status'' = Some (JNum 1)"
        "r' ''execTransactionHash'' = Some (JStr ''0xd1'')"
        "r' ''submitTransactionHash'' = Some (JStr ''0xb1'')"
        "r' ''priceOfAckGas'' = Some (JStr ''7'')"
      by (auto simp add: example_placed_def example_incentive_def example_decimals)
    then show ?thesis by (auto simp add: field_at_def)
  qed
  have kept: "field_at (run_store example_sparse_store ?cs) ''0xaa'' ''execTransactionHash'' = Some (JStr ''0xd1'')"
  proof -
    have r: "?r ''execTransactionHash'' = Some (JStr ''0xd1'')" by simp
    have w: "''execTransactionHash'' \<notin> (\<Union>c \<in> {c \<in> set ?cs. call_id c = ''0xaa''}. written_fields c)"
      by auto
    from fields_never_cleared [where st = example_sparse_store and r = ?r
             and mid = "''0xaa''" and f = "''execTransactionHash''" and v = "JStr ''0xd1''" and cs = ?cs,
             THEN conjunct2, THEN conjunct2] b1 r w
    show ?thesis by (auto simp add: field_at_def)
  qed
  from b0 b1 created merged kept show ?thesis
    by (simp add: field_at_def)
qed

section \<open>\<open>getBounty\<close> on sparse records (C9)\<close>

text \<open>
  Claim C9. \<open>getBounty\<close> returns \<open>null\<close> when the stored record lacks one of
  \<open>priceOfDeliveryGas\<close>, \<open>priceOfAckGas\<close>, \<open>targetDelta\<close>; so it does on the record
  that \<open>registerMessageDelivered\<close> creates when no bounty was seen before, although a
  record is stored under the key; and when it returns a bounty, the stored record has all
  three fields and the bounty is that record with the three fields decoded.
\<close>

theorem getBounty_null_on_sparse_record:
  "(bounty_at st mid = Some r \<and>
      (r ''priceOfDeliveryGas'' = None \<or> r ''priceOfAckGas'' = None \<or> r ''targetDelta'' = None) \<longrightarrow>
      getBounty st mid = Inr None)
   \<and> (chainId st = Some cid \<and> bounty_at st (messageIdentifier ev) = None \<longrightarrow>
      (\<exists>st' r'. registerMessageDelivered st ev = Inr st' \<and>
         bounty_at st' (messageIdentifier ev) = Some r' \<and>
         getBounty st' (messageIdentifier ev) = Inr None))
   \<and> (getBounty st mid = Inr (Some b) \<longrightarrow>
      (\<exists>r d a t d' a' t'. bounty_at st mid = Some r \<and>
         r ''priceOfDeliveryGas'' = Some d \<and> r ''priceOfAckGas'' = Some a \<and> r ''targetDelta'' = Some t \<and>
         BigNumber_from d = Inr d' \<and> BigNumber_from a = Inr a' \<and> BigNumber_from t = Inr t' \<and>
         b = (JSON_parse r)(''priceOfDeliveryGas'' \<mapsto> Big d', ''priceOfAckGas'' \<mapsto> Big a',
                            ''targetDelta'' \<mapsto> Big t')))"
proof (intro conjI impI)
  assume "bounty_at st mid = Some r \<and>
      (r ''priceOfDeliveryGas'' = None \<or> r ''priceOfAckGas'' = None \<or> r ''targetDelta'' = None)"
  then show "getBounty st mid = Inr None" using getBounty_missing by blast
next
  assume h: "chainId st = Some cid \<and> bounty_at st (messageIdentifier ev) = None"
  then obtain st' where st': "registerMessageDelivered st ev = Inr st'"
      "bounty_at st' (messageIdentifier ev) =
             Some [''messageIdentifier'' \<mapsto> JStr (messageIdentifier ev),
                   ''status'' \<mapsto> JNum 1,
                   ''execTransactionHash'' \<mapsto> JStr (transactionHash ev),
                   ''toChainId'' \<mapsto> JStr cid]"
    using delivered_sparse by blast
  have "getBounty st' (messageIdentifier ev) = Inr None"
    by (rule getBounty_missing [OF st'(2)]) simp
  with st' show "\<exists>st' r'. registerMessageDelivered st ev = Inr st' \<and>
         bounty_at st' (messageIdentifier ev) = Some r' \<and>
         getBounty st' (messageIdentifier ev) = Inr None"
    by blast
next
  assume "getBounty st mid = Inr (Some b)"
  then show "\<exists>r d a t d' a' t'. bounty_at st mid = Some r \<and>
         r ''priceOfDeliveryGas'' = Some d \<and> r ''priceOfAckGas'' = Some a \<and> r ''targetDelta'' = Some t \<and>
         BigNumber_from d = Inr d' \<and> BigNumber_from a = Inr a' \<and> BigNumber_from t = Inr t' \<and>
         b = (JSON_parse r)(''priceOfDeliveryGas'' \<mapsto> Big d', ''priceOfAckGas'' \<mapsto> Big a',
                            ''targetDelta'' \<mapsto> Big t')"
    by (rule getBounty_some)
qed

theorem getBounty_null_on_sparse_record_witness:
  "bounty_at example_sparse_store ''0xaa'' \<noteq> None
   \<and> getBounty example_sparse_store ''0xaa'' = Inr None
   \<and> bounty_at example_store ''0xaa'' = None
   \<and> (\<exists>st'. registerMessageDelivered example_store (example_event ''0xaa'' ''0xd1'') = Inr st' \<and>
          bounty_at st' ''0xaa'' \<noteq> None \<and> getBounty st' ''0xaa'' = Inr None)
   \<and> getBounty example_placed_store ''0xaa'' =
        Inr (Some [''messageIdentifier'' \<mapsto> J (JStr ''0xaa''), ''status'' \<mapsto> J (JNum 0),
                   ''priceOfDeliveryGas'' \<mapsto> Big 5, ''priceOfAckGas'' \<mapsto> Big 7,
                   ''targetDelta'' \<mapsto> Big 60])
   \<and> field_at example_placed_store ''0xaa'' ''targetDelta'' = Some (JStr ''60'')"
proof -
  let ?r = "[''messageIdentifier'' \<mapsto> JStr ''0xaa'', ''status'' \<mapsto> JNum 1,
             ''execTransactionHash'' \<mapsto> JStr ''0xd1'', ''toChainId'' \<mapsto> JStr ''2'']"
  let ?b = "[''messageIdentifier'' \<mapsto> J (JStr ''0xaa''), ''status'' \<mapsto> J (JNum 0),
                   ''priceOfDeliveryGas'' \<mapsto> Big 5, ''priceOfAckGas'' \<mapsto> Big 7,
                   ''targetDelta'' \<mapsto> Big 60]"
  have b1: "bounty_at example_sparse_store ''0xaa'' = Some ?r"
    by (simp add: example_sparse_store_def bounty_at_def)
  have r1: "?r ''priceOfDeliveryGas'' = None" by simp
  have c0: "chainId example_store = Some ''2''" by (simp add: example_store_def)
  have b0: "bounty_at example_store (messageIdentifier (example_event ''0xaa'' ''0xd1'')) = None"
    by (simp add: example_store_def bounty_at_def)
  have g: "getBounty example_placed_store ''0xaa'' = Inr (Some ?b)"
    by (simp add: getBounty_def example_placed_store_def JSON_parse_def fun_eq_iff
          BigNumber_from_string_def unsigned_value_def is_dec_literal_def is_dec_digit_def dec_value_def)
  have p1: "getBounty example_sparse_store ''0xaa'' = Inr None"
    using getBounty_null_on_sparse_record [where st = example_sparse_store and mid = "''0xaa''" and r = ?r, THEN conjunct1] b1 r1
    by blast
  have p2: "\<exists>st'. registerMessageDelivered example_store (example_event ''0xaa'' ''0xd1'') = Inr st' \<and>
          bounty_at st' ''0xaa'' \<noteq> None \<and> getBounty st' ''0xaa'' = Inr None"
    using getBounty_null_on_sparse_record [where st = example_store and cid = "''2''" and ev = "example_event ''0xaa'' ''0xd1''",
            THEN conjunct2, THEN conjunct1] c0 b0
    by (auto simp add: example_event_def)
  have p3: "field_at example_placed_store ''0xaa'' ''targetDelta'' = Some (JStr ''60'')"
    using getBounty_null_on_sparse_record [where st = example_placed_store and mid = "''0xaa''" and b = ?b,
            THEN conjunct2, THEN conjunct2] g
    by (auto simp add: field_at_def example_placed_store_def bounty_at_def)
  from b1 p1 b0 p2 g p3 show ?thesis
    by (simp add: example_event_def)
qed


section \<open>The baseline of \<open>registerBountyIncreased\<close> (C10)\<close>

lemma increased_keeps_other_fields:
  assumes "f \<notin> {''messageIdentifier'', ''priceOfDeliveryGas'', ''priceOfAckGas''}"
  shows "field_at (step_store st (RegisterBountyIncreased e)) mid f = field_at st mid f"
proof (cases "messageIdentifier e = mid")
  case False
  then show ?thesis by (simp add: field_at_step_other)
next
  case True
  with assms show ?thesis
    by (auto simp add: step_store_def field_at_def registerBountyIncreased_def Let_def
          bounty_at_def [symmetric] JSON_stringify_def JSON_parse_def
          split: option.splits sum.splits)
qed

lemma no_status_write_keeps_status:
  assumes "\<forall>c \<in> set cs. call_id c = mid \<longrightarrow> call_status c = None"
  shows "field_at (run_store st cs) mid ''status'' = field_at st mid ''status''"
  using assms
proof (induction cs arbitrary: st)
  case Nil
  then show ?case by simp
next
  case (Cons c cs)
  have "field_at (step_store st c) mid ''status'' = field_at st mid ''status''"
  proof (cases "call_id c = mid")
    case False
    then show ?thesis by (simp add: field_at_step_other)
  next
    case True
    with Cons.prems have "call_status c = None" by simp
    then obtain e where "c = RegisterBountyIncreased e" by (cases c) simp_all
    then show ?thesis by (simp add: increased_keeps_other_fields)
  qed
  with Cons show ?case by simp
qed

lemma increased_baseline:
  assumes "chainId st = Some cid" "bounty_at st (messageIdentifier ev) = None"
  shows "\<exists>st'. registerBountyIncreased st ev = Inr st' \<and>
     bounty_at st' (messageIdentifier ev) =
       Some [''messageIdentifier'' \<mapsto> JStr (messageIdentifier ev),
             ''priceOfDeliveryGas'' \<mapsto> JStr (BigNumber_toString (newDeliveryGasPrice ev)),
             ''priceOfAckGas'' \<mapsto> JStr (BigNumber_toString (newAckGasPrice ev))]"
  using assms
  by (simp add: registerBountyIncreased_def bounty_at_def [symmetric] Let_def)


text \<open>
  Claim C10. \<open>registerBountyIncreased\<close> for an identifier with no record, on a writable
  store, stores a record of exactly three fields, \<open>messageIdentifier\<close>,
  \<open>priceOfDeliveryGas\<close> and \<open>priceOfAckGas\<close>, with no \<open>status\<close>; and the record has
  no \<open>status\<close> after any further calls among which none for this identifier is
  \<open>registerBountyPlaced\<close>, \<open>registerMessageDelivered\<close> or \<open>registerBountyClaimed\<close>.
\<close>

theorem increased_baseline_has_no_status:
  assumes "chainId st = Some cid" and "bounty_at st (messageIdentifier ev) = None"
  shows "\<exists>st'. registerBountyIncreased st ev = Inr st'
         \<and> bounty_at st' (messageIdentifier ev) =
             Some [''messageIdentifier'' \<mapsto> JStr (messageIdentifier ev),
                   ''priceOfDeliveryGas'' \<mapsto> JStr (BigNumber_toString (newDeliveryGasPrice ev)),
                   ''priceOfAckGas'' \<mapsto> JStr (BigNumber_toString (newAckGasPrice ev))]
         \<and> field_at st' (messageIdentifier ev) ''status'' = None
         \<and> (\<forall>cs. (\<forall>c \<in> set cs. call_id c = messageIdentifier ev \<longrightarrow> call_status c = None) \<longrightarrow>
                field_at (run_store st' cs) (messageIdentifier ev) ''status'' = None)"
proof -
  from increased_baseline [OF assms] obtain st' where st':
     "registerBountyIncreased st ev = Inr st'"
     "bounty_at st' (messageIdentifier ev) =
       Some [''messageIdentifier'' \<mapsto> JStr (messageIdentifier ev),
             ''priceOfDeliveryGas'' \<mapsto> JStr (BigNumber_toString (newDeliveryGasPrice ev)),
             ''priceOfAckGas'' \<mapsto> JStr (BigNumber_toString (newAckGasPrice ev))]"
    by blast
  have none: "field_at st' (messageIdentifier ev) ''status'' = None"
    by (simp add: field_at_def st'(2))
  have "\<forall>cs. (\<forall>c \<in> set cs. call_id c = messageIdentifier ev \<longrightarrow> call_status c = None) \<longrightarrow>
                field_at (run_store st' cs) (messageIdentifier ev) ''status'' = None"
    by (simp add: no_status_write_keeps_status none)
  with st' none show ?thesis by blast
qed

theorem increased_baseline_has_no_status_witness:
  "chainId example_store = Some ''2''
   \<and> bounty_at example_store ''0xaa'' = None
   \<and> (\<exists>st'. registerBountyIncreased example_store (example_increase ''0xaa'' 10 7) = Inr st'
         \<and> bounty_at st' ''0xaa'' =
             Some [''messageIdentifier'' \<mapsto> JStr ''0xaa'',
                   ''priceOfDeliveryGas'' \<mapsto> JStr ''10'',
                   ''priceOfAckGas'' \<mapsto> JStr ''7'']
         \<and> field_at st' ''0xaa'' ''status'' = None
         \<and> field_at (run_store st'
               [RegisterBountyIncreased (example_increase ''0xaa'' 20 3),
                RegisterBountyClaimed (example_event ''0xbb'' ''0xc2'')]) ''0xaa'' ''status'' = None)"
proof -
  have h1: "chainId example_store = Some ''2''" by (simp add: example_store_def)
  have h2: "bounty_at example_store (messageIdentifier (example_increase ''0xaa'' 10 7)) = None"
    by (simp add: example_store_def bounty_at_def)
  let ?cs = "[RegisterBountyIncreased (example_increase ''0xaa'' 20 3),
              RegisterBountyClaimed (example_event ''0xbb'' ''0xc2'')]"
  have h3: "\<forall>c \<in> set ?cs. call_id c = messageIdentifier (example_increase ''0xaa'' 10 7) \<longrightarrow>
              call_status c = None"
    by (simp add: example_increase_def example_event_def)
  from increased_baseline_has_no_status [OF h1 h2] obtain st' where st':
    "registerBountyIncreased example_store (example_increase ''0xaa'' 10 7) = Inr st'"
    "bounty_at st' (messageIdentifier (example_increase ''0xaa'' 10 7)) =
             Some [''messageIdentifier'' \<mapsto> JStr (messageIdentifier (example_increase ''0xaa'' 10 7)),
                   ''priceOfDeliveryGas'' \<mapsto> JStr (BigNumber_toString (newDeliveryGasPrice (example_increase ''0xaa'' 10 7))),
                   ''priceOfAckGas'' \<mapsto> JStr (BigNumber_toString (newAckGasPrice (example_increase ''0xaa'' 10 7)))]"
    "field_at st' (messageIdentifier (example_increase ''0xaa'' 10 7)) ''status'' = None"
    "\<forall>cs. (\<forall>c \<in> set cs. call_id c = messageIdentifier (example_increase ''0xaa'' 10 7) \<longrightarrow> call_status c = None) \<longrightarrow>
                field_at (run_store st' cs) (messageIdentifier (example_increase ''0xaa'' 10 7)) ''status'' = None"
    by blast
  from st'(4) h3 have "field_at (run_store st' ?cs) (messageIdentifier (example_increase ''0xaa'' 10 7)) ''status'' = None"
    by blast
  with st'(1,2,3) h1 h2 show ?thesis
    by (auto simp add: example_increase_def example_decimals)
qed


text \<open>
  What the first status-writing call finds on such a baseline: \<open>registerBountyPlaced\<close>
  takes the status of its fresh object; \<open>registerMessageDelivered\<close> computes
  \<open>Math.max(undefined, 1)\<close>, which is \<open>NaN\<close> and is stored as \<open>null\<close>.
\<close>

lemma placed_after_baseline:
  assumes "chainId st = Some cid" "bounty_at st (messageIdentifier ev) = None"
     "messageIdentifier e = messageIdentifier ev"
  shows "field_at (run_store st [RegisterBountyIncreased ev, RegisterBountyPlaced e]) (messageIdentifier ev) ''status''
          = Some (JNum 0)"
  using assms
  by (simp add: step_store_def registerBountyIncreased_def registerBountyPlaced_def Let_def
        store_get_def field_at_def bounty_at_def [symmetric] placed_bounty_def
        JSON_stringify_def JSON_parse_def map_add_def)

lemma delivered_after_baseline:
  assumes "chainId st = Some cid" "bounty_at st (messageIdentifier ev) = None"
     "messageIdentifier e = messageIdentifier ev"
  shows "field_at (run_store st [RegisterBountyIncreased ev, RegisterMessageDelivered e]) (messageIdentifier ev) ''status''
          = Some JNull"
  using assms
  by (simp add: step_store_def registerBountyIncreased_def registerMessageDelivered_def Let_def
        field_at_def bounty_at_def [symmetric] Math_max_def get_prop_def JSON_parse_def)

section \<open>The submit queue: simulation, failed orders, delivery cost (C4, C8)\<close>

text \<open>
  Claim C4. \<open>handleOrder\<close> makes the static call, once and with the order's transaction
  request, exactly when \<open>retryCount > 0\<close> or the order's \<open>requeueCount\<close> (0 when unset)
  is above 0. \<open>handleFailedOrder\<close> returns false exactly when the \<open>code\<close> of the error
  is the string \<open>CALL_EXCEPTION\<close> and true for every other error, and calls nothing on
  the store. When the static call throws, \<open>handleOrder\<close> rejects with that error before
  it reaches the wallet.
\<close>

theorem simulation_on_retry_and_drop_on_call_exception:
  "filter is_simulation (fst (handleOrder chain simulation answer order retryCount)) =
     (if retryCount > 0 \<or> (case requeueCount order of None \<Rightarrow> 0 | Some n \<Rightarrow> n) > 0
      then [ProviderCall (transactionRequest order)] else [])
   \<and> snd (handleFailedOrder order retryCount error) = (code error \<noteq> J (JStr ''CALL_EXCEPTION''))
   \<and> filter is_store_effect (fst (handleFailedOrder order retryCount error)) = []
   \<and> ((retryCount > 0 \<or> (case requeueCount order of None \<Rightarrow> 0 | Some n \<Rightarrow> n) > 0)
        \<and> simulation = Some error \<longrightarrow>
        handleOrder chain simulation answer order retryCount =
          ([Log Debug ''Handling submitter submit order'', ProviderCall (transactionRequest order)],
           Inl error))"
  by (auto simp add: handleOrder_def handleFailedOrder_def Let_def split: option.splits)

theorem simulation_on_retry_and_drop_on_call_exception_witness:
  "filter is_simulation
     (fst (handleOrder ''2'' None (example_answer (example_order True None)) (example_order True None) 0)) = []
   \<and> filter is_simulation
     (fst (handleOrder ''2'' None (example_answer (example_order True (Some 1)))
            (example_order True (Some 1)) 0)) = [ProviderCall (TransactionRequest ''0xe5'' ''0x02'')]
   \<and> handleOrder ''2'' (Some \<lparr>code = J (JStr ''CALL_EXCEPTION''), description = ''execution reverted''\<rparr>)
        (example_answer (example_order True None)) (example_order True None) 1
       = ([Log Debug ''Handling submitter submit order'', ProviderCall (TransactionRequest ''0xe5'' ''0x02'')],
          Inl \<lparr>code = J (JStr ''CALL_EXCEPTION''), description = ''execution reverted''\<rparr>)
   \<and> snd (handleFailedOrder (example_order True None) 1
             \<lparr>code = J (JStr ''CALL_EXCEPTION''), description = ''execution reverted''\<rparr>) = False
   \<and> snd (handleFailedOrder (example_order True None) 1
             \<lparr>code = J (JStr ''TIMEOUT''), description = ''timeout''\<rparr>) = True
   \<and> snd (handleFailedOrder (example_order True None) 1
             \<lparr>code = Undefined, description = ''No transaction returned''\<rparr>) = True"
  using simulation_on_retry_and_drop_on_call_exception
          [of "''2''" None "example_answer (example_order True None)" "example_order True None" 0]
        simulation_on_retry_and_drop_on_call_exception
          [of "''2''" None "example_answer (example_order True (Some 1))" "example_order True (Some 1)" 0]
        simulation_on_retry_and_drop_on_call_exception
          [of "''2''" "Some \<lparr>code = J (JStr ''CALL_EXCEPTION''), description = ''execution reverted''\<rparr>"
              "example_answer (example_order True None)" "example_order True None" 1
              "\<lparr>code = J (JStr ''CALL_EXCEPTION''), description = ''execution reverted''\<rparr>"]
        simulation_on_retry_and_drop_on_call_exception
          [of "''2''" None "example_answer (example_order True None)" "example_order True None" 1
              "\<lparr>code = J (JStr ''TIMEOUT''), description = ''timeout''\<rparr>"]
        simulation_on_retry_and_drop_on_call_exception
          [of "''2''" None "example_answer (example_order True None)" "example_order True None" 1
              "\<lparr>code = Undefined, description = ''No transaction returned''\<rparr>"]
  by (simp add: example_order_def)

text \<open>
  Claim C8. Of all the calls \<open>onOrderCompletion\<close> makes, the ones on the store are: one
  \<open>registerDeliveryCost\<close> with the order's identifier and the receipt's \<open>gasUsed\<close> when
  the order succeeded with a result and is a delivery order; none for an ack order, an
  unsuccessful order or a \<open>null\<close> result.
\<close>

theorem delivery_cost_only_for_deliveries:
  "filter is_store_effect (onOrderCompletion order success result retryCount) =
     (case result of
        Some res \<Rightarrow>
          if success \<and> isDelivery order
          then [StoreRegisterDeliveryCost (Order.messageIdentifier order) (gasUsed (txReceipt res))]
          else []
      | None \<Rightarrow> [])"
  by (simp add: onOrderCompletion_def registerSubmissionCost_def split: option.splits)

theorem delivery_cost_only_for_deliveries_witness:
  "filter is_store_effect
     (onOrderCompletion (example_order True None) True
        (Some (SubmitOrder.extend (example_order True None)
                 \<lparr>tx = \<lparr>hash = ''0x7a''\<rparr>, txReceipt = \<lparr>gasUsed = 150000\<rparr>\<rparr>)) 0)
     = [StoreRegisterDeliveryCost ''0xaa'' 150000]
   \<and> filter is_store_effect
     (onOrderCompletion (example_order False None) True
        (Some (SubmitOrder.extend (example_order False None)
                 \<lparr>tx = \<lparr>hash = ''0x7a''\<rparr>, txReceipt = \<lparr>gasUsed = 150000\<rparr>\<rparr>)) 0)
     = []
   \<and> filter is_store_effect (onOrderCompletion (example_order True None) True None 0) = []
   \<and> filter is_store_effect
     (onOrderCompletion (example_order True None) False
        (Some (SubmitOrder.extend (example_order True None)
                 \<lparr>tx = \<lparr>hash = ''0x7a''\<rparr>, txReceipt = \<lparr>gasUsed = 150000\<rparr>\<rparr>)) 2)
     = []"
  using delivery_cost_only_for_deliveries [of "example_order True None" True
          "Some (SubmitOrder.extend (example_order True None)
                 \<lparr>tx = \<lparr>hash = ''0x7a''\<rparr>, txReceipt = \<lparr>gasUsed = 150000\<rparr>\<rparr>)" 0]
        delivery_cost_only_for_deliveries [of "example_order False None" True
          "Some (SubmitOrder.extend (example_order False None)
                 \<lparr>tx = \<lparr>hash = ''0x7a''\<rparr>, txReceipt = \<lparr>gasUsed = 150000\<rparr>\<rparr>)" 0]
        delivery_cost_only_for_deliveries [of "example_order True None" True None 0]
        delivery_cost_only_for_deliveries [of "example_order True None" False
          "Some (SubmitOrder.extend (example_order True None)
                 \<lparr>tx = \<lparr>hash = ''0x7a''\<rparr>, txReceipt = \<lparr>gasUsed = 150000\<rparr>\<rparr>)" 2]
  by (simp add: example_order_def SubmitOrder.extend_def)

section \<open>The block-window loop (C5)\<close>

lemma scan_body_wait_none: "scan_body cfg b None = Wait"
  by (simp add: scan_body_def)

lemma scan_body_wait_behind: "tip < b \<Longrightarrow> scan_body cfg b (Some tip) = Wait"
  by (simp add: scan_body_def)

lemma scan_body_scan:
  assumes "tip \<noteq> 0" "b \<le> tip"
  shows "scan_body cfg b (Some tip) =
           Scan b (spec_toBlock cfg b tip)
             (case stoppingBlock cfg of
                Some stopBlock \<Rightarrow> if spec_toBlock cfg b tip \<ge> stopBlock then None
                                  else Some (spec_toBlock cfg b tip + 1)
              | None \<Rightarrow> Some (spec_toBlock cfg b tip + 1))"
  using assms
  by (auto simp add: scan_body_def spec_toBlock_def Let_def min_def split: option.splits)

lemma spec_toBlock_behind:
  assumes "case maxBlocks cfg of None \<Rightarrow> True | Some m \<Rightarrow> 0 \<le> m"
      and "case stoppingBlock cfg of None \<Rightarrow> True | Some stopBlock \<Rightarrow> b \<le> stopBlock"
  shows "spec_toBlock cfg b tip < b \<longleftrightarrow> tip < b"
  using assms by (auto simp add: spec_toBlock_def min_def split: option.splits)

lemma waits_at_tip: "scan_loop example_scan_config 501 (replicate n (Some 500)) = []"
  by (induction n) (simp_all add: scan_body_def example_scan_config_def)

lemma example_windows:
  "run example_scan_config (replicate (9 + n) (Some 500)) =
     [(100, 150), (151, 201), (202, 252), (253, 303), (304, 354), (355, 405), (406, 456), (457, 500)]"
proof -
  have "replicate (9 + n) (Some (500::int)) =
          Some 500 # Some 500 # Some 500 # Some 500 # Some 500 # Some 500 # Some 500 # Some 500 # Some 500 #
          replicate n (Some 500)"
    by (simp add: numeral_eq_Suc)
  then show ?thesis
    by (simp add: scan_body_def example_scan_config_def Let_def waits_at_tip [unfolded example_scan_config_def])
qed


text \<open>
  Claim C5 fails as it is stated. With \<open>startingBlock = 100\<close>, tip 500 and
  \<open>maxBlocks = 50\<close> the eight windows are 51 blocks wide and the last one is
  \<open>[457, 500]\<close>, not \<open>[451, 500]\<close>. And with \<open>stoppingBlock = 50\<close> below the
  starting block the spec's \<open>toBlock\<close> is below \<open>fromBlock\<close>, yet the loop does not
  wait: it queries the window \<open>[100, 50]\<close> once and leaves.
\<close>

theorem scan_windows_counterexample:
  "run example_scan_config (replicate 9 (Some 500)) =
     [(100, 150), (151, 201), (202, 252), (253, 303), (304, 354), (355, 405), (406, 456), (457, 500)]
   \<and> (451, 500) \<notin> set (run example_scan_config (replicate 9 (Some 500)))
   \<and> spec_toBlock example_stopped_config 100 500 < 100
   \<and> scan_body example_stopped_config 100 (Some 500) = Scan 100 50 None"
proof -
  have "run example_scan_config (replicate 9 (Some 500)) =
     [(100, 150), (151, 201), (202, 252), (253, 303), (304, 354), (355, 405), (406, 456), (457, 500)]"
    using example_windows [of 0] by simp
  then show ?thesis
    by (simp add: spec_toBlock_def scan_body_def example_stopped_config_def)
qed


text \<open>
  Claim C5, amended. For a tip other than 0, a \<open>maxBlocks\<close> that is not negative and a
  \<open>fromBlock\<close> not above \<open>stoppingBlock\<close>: a pass of the loop waits when no tip is known
  or when \<open>toBlock = min(currentTip, fromBlock + maxBlocks, stoppingBlock)\<close> is below
  \<open>fromBlock\<close>; otherwise it queries the window \<open>[fromBlock, toBlock]\<close> and goes on from
  \<open>toBlock + 1\<close>, or leaves the loop when \<open>toBlock\<close> has reached \<open>stoppingBlock\<close>.
  Started with \<open>startingBlock = 100\<close> and \<open>maxBlocks = 50\<close> under a tip that stays at
  500, the worker queries exactly the 8 windows \<open>[100,150]\<close>, \<open>[151,201]\<close>,
  \<open>[202,252]\<close>, \<open>[253,303]\<close>, \<open>[304,354]\<close>, \<open>[355,405]\<close>, \<open>[406,456]\<close>,
  \<open>[457,500]\<close>, however many further passes it makes.
\<close>

theorem scan_window_is_spec_window:
  assumes "tip \<noteq> 0"
      and "case maxBlocks cfg of None \<Rightarrow> True | Some m \<Rightarrow> 0 \<le> m"
      and "case stoppingBlock cfg of None \<Rightarrow> True | Some stopBlock \<Rightarrow> fromBlock \<le> stopBlock"
  shows "scan_body cfg fromBlock None = Wait
       \<and> (spec_toBlock cfg fromBlock tip < fromBlock \<longrightarrow> scan_body cfg fromBlock (Some tip) = Wait)
       \<and> (fromBlock \<le> spec_toBlock cfg fromBlock tip \<longrightarrow>
            scan_body cfg fromBlock (Some tip) =
              Scan fromBlock (spec_toBlock cfg fromBlock tip)
                (case stoppingBlock cfg of
                   Some stopBlock \<Rightarrow> if spec_toBlock cfg fromBlock tip \<ge> stopBlock then None
                                     else Some (spec_toBlock cfg fromBlock tip + 1)
                 | None \<Rightarrow> Some (spec_toBlock cfg fromBlock tip + 1)))
       \<and> (\<forall>n. run example_scan_config (replicate (9 + n) (Some 500)) =
              [(100, 150), (151, 201), (202, 252), (253, 303), (304, 354), (355, 405), (406, 456),
               (457, 500)])"
proof (intro conjI impI allI)
  show "scan_body cfg fromBlock None = Wait" by (rule scan_body_wait_none)
next
  assume "spec_toBlock cfg fromBlock tip < fromBlock"
  then have "tip < fromBlock" using spec_toBlock_behind [OF assms(2,3)] by simp
  then show "scan_body cfg fromBlock (Some tip) = Wait" by (rule scan_body_wait_behind)
next
  assume "fromBlock \<le> spec_toBlock cfg fromBlock tip"
  then have "fromBlock \<le> tip" using spec_toBlock_behind [OF assms(2,3), of tip] by simp
  from scan_body_scan [OF assms(1) this]
  show "scan_body cfg fromBlock (Some tip) =
              Scan fromBlock (spec_toBlock cfg fromBlock tip)
                (case stoppingBlock cfg of
                   Some stopBlock \<Rightarrow> if spec_toBlock cfg fromBlock tip \<ge> stopBlock then None
                                     else Some (spec_toBlock cfg fromBlock tip + 1)
                 | None \<Rightarrow> Some (spec_toBlock cfg fromBlock tip + 1))" .
next
  fix n
  show "run example_scan_config (replicate (9 + n) (Some 500)) =
              [(100, 150), (151, 201), (202, 252), (253, 303), (304, 354), (355, 405), (406, 456),
               (457, 500)]"
    by (rule example_windows)
qed

theorem scan_window_is_spec_window_witness:
  "spec_toBlock example_scan_config 151 500 = 201
   \<and> scan_body example_scan_config 151 (Some 500) = Scan 151 201 (Some 202)
   \<and> spec_toBlock example_scan_config 501 500 < 501
   \<and> scan_body example_scan_config 501 (Some 500) = Wait
   \<and> scan_body example_scan_config 100 None = Wait
   \<and> run example_scan_config (replicate 12 (Some 500)) =
        [(100, 150), (151, 201), (202, 252), (253, 303), (304, 354), (355, 405), (406, 456), (457, 500)]"
proof -
  have h1: "(500::int) \<noteq> 0" by simp
  have h2: "case maxBlocks example_scan_config of None \<Rightarrow> True | Some m \<Rightarrow> 0 \<le> m"
    by (simp add: example_scan_config_def)
  have h3: "case stoppingBlock example_scan_config of None \<Rightarrow> True | Some stopBlock \<Rightarrow> b \<le> stopBlock" for b
    by (simp add: example_scan_config_def)
  have s1: "spec_toBlock example_scan_config 151 500 = 201"
       and s2: "spec_toBlock example_scan_config 501 500 = 500"
    by (simp_all add: spec_toBlock_def example_scan_config_def)
  have a: "scan_body example_scan_config 151 (Some 500) = Scan 151 201 (Some 202)"
    using scan_window_is_spec_window [OF h1 h2 h3, of 151] s1
    by (simp add: example_scan_config_def)
  have b: "scan_body example_scan_config 501 (Some 500) = Wait"
    using scan_window_is_spec_window [OF h1 h2 h3, of 501] s2 by simp
  have c: "scan_body example_scan_config 100 None = Wait"
    using scan_window_is_spec_window [OF h1 h2 h3, of 100] by simp
  have d: "run example_scan_config (replicate 12 (Some 500)) =
        [(100, 150), (151, 201), (202, 252), (253, 303), (304, 354), (355, 405), (406, 456), (457, 500)]"
    using scan_window_is_spec_window [OF h1 h2 h3, of 100, THEN conjunct2, THEN conjunct2,
            THEN conjunct2, THEN spec, of 3]
    by simp
  from a b c d s1 s2 show ?thesis by simp
qed

section \<open>The Mock collector's proof (C6)\<close>

lemma be_bytes_length [simp]: "length (be_bytes k x) = k"
  by (induction k arbitrary: x) simp_all

lemma be_value_snoc: "be_value (bs @ [b]) = be_value bs * 256 + unat b"
  by (simp add: be_value_def)

lemma unat_byte_of_mod: "unat (of_nat (x mod 256) :: 8 word) = x mod 256"
  by (simp add: unat_of_nat)

lemma be_value_be_bytes: "be_value (be_bytes k x) = x mod 256 ^ k"
proof (induction k arbitrary: x)
  case 0
  then show ?case by (simp add: be_value_def)
next
  case (Suc k)
  have "be_value (be_bytes (Suc k) x) = (x div 256) mod 256 ^ k * 256 + x mod 256"
    by (simp add: be_value_snoc Suc.IH unat_byte_of_mod)
  also have "\<dots> = x mod 256 ^ Suc k"
    by (simp add: mod_mult2_eq mult.commute)
  finally show ?case .
qed

lemma be_value_word: "x < 2 ^ 256 \<Longrightarrow> be_value (be_bytes 32 x) = x"
proof -
  assume "x < 2 ^ 256"
  moreover have "(256::nat) ^ 32 = 2 ^ 256" by simp
  ultimately show ?thesis by (simp add: be_value_be_bytes)
qed

lemma abi_uint8_value: "length (abi_uint8 x) = 32 \<and> be_value (abi_uint8 x) = unat x"
proof -
  have "unat x < 2 ^ LENGTH(8)" by (rule unsigned_less)
  then have "unat x < 2 ^ 256" by (simp add: order_less_trans)
  then show ?thesis by (simp add: abi_uint8_def be_value_word)
qed

lemma abi_uint256_value: "length (abi_uint256 x) = 32 \<and> be_value (abi_uint256 x) = unat x"
proof -
  have "unat x < 2 ^ LENGTH(256)" by (rule unsigned_less)
  then have "unat x < 2 ^ 256" by simp
  then show ?thesis by (simp add: abi_uint256_def be_value_word)
qed

lemma encodeSignature_layout:
  "length (encodeSignature sg) = 96
   \<and> be_value (take 32 (encodeSignature sg)) = unat (sig_v sg)
   \<and> be_value (take 32 (drop 32 (encodeSignature sg))) = unat (sig_r sg)
   \<and> be_value (drop 64 (encodeSignature sg)) = unat (sig_s sg)"
  using abi_uint8_value [of "sig_v sg"] abi_uint256_value [of "sig_r sg"] abi_uint256_value [of "sig_s sg"]
  by (simp add: encodeSignature_def)

lemma zeroPadValue_length: "zeroPadValue bs n = Inr padded \<Longrightarrow> length padded = n"
  by (auto simp add: zeroPadValue_def split: if_splits)


text \<open>
  Claim C6. For a worker built from its configuration and any \<open>Message\<close> event, the
  handler publishes a payload when it does not throw, and the payload it publishes has as
  \<open>message\<close> the incentives address padded with zero bytes to 32 bytes followed by the
  event's message bytes, and as \<open>messageCtx\<close> the encoding of the signature, under the
  configured private key, of the keccak hash of those same bytes. The encoding of a
  signature is 96 bytes: \<open>v\<close>, \<open>r\<close> and \<open>s\<close>, each as a 32-byte big-endian word, in
  this order.
\<close>

theorem mock_payload_is_signed_message:
  assumes "new_MockCollectorWorker workerData = Inr worker"
      and "handleMockMessage prims worker log messageEvent = (effects, outcome)"
  shows "\<exists>padded.
           zeroPadValue (MockWorkerData.incentivesAddress workerData) 32 = Inr padded
           \<and> padded = replicate (32 - length (MockWorkerData.incentivesAddress workerData)) 0
                        @ MockWorkerData.incentivesAddress workerData
           \<and> length padded = 32
           \<and> (outcome = None \<longrightarrow> (\<exists>p. published_payload effects = Some p))
           \<and> (\<forall>p. published_payload effects = Some p \<longrightarrow>
                  AmbPayload.message p = padded @ MessageEvent.message messageEvent
                  \<and> messageCtx p =
                      Some (encodeSignature
                        (sign prims (privateKey workerData)
                           (keccak256 prims (padded @ MessageEvent.message messageEvent)))))
           \<and> length (encodeSignature sg) = 96
           \<and> be_value (take 32 (encodeSignature sg)) = unat (sig_v sg)
           \<and> be_value (take 32 (drop 32 (encodeSignature sg))) = unat (sig_r sg)
           \<and> be_value (drop 64 (encodeSignature sg)) = unat (sig_s sg)"
proof -
  from assms(1) obtain padded where p: "zeroPadValue (MockWorkerData.incentivesAddress workerData) 32 = Inr padded"
      and w: "worker = \<lparr>config = workerData, signingKey = privateKey workerData,
                        incentivesAddressBytes32 = padded\<rparr>"
    by (auto simp add: new_MockCollectorWorker_def split: sum.splits)
  from p have p2: "padded = replicate (32 - length (MockWorkerData.incentivesAddress workerData)) 0
                     @ MockWorkerData.incentivesAddress workerData"
    by (auto simp add: zeroPadValue_def split: if_splits)
  from assms(2) w have fin: "outcome = None \<longrightarrow> (\<exists>p. published_payload effects = Some p)"
    by (auto simp add: handleMockMessage_def Let_def split: sum.splits)
  from assms(2) w have q: "\<forall>q. published_payload effects = Some q \<longrightarrow>
      AmbPayload.message q = padded @ MessageEvent.message messageEvent
      \<and> messageCtx q =
               Some (encodeSignature
                 (sign prims (privateKey workerData)
                    (keccak256 prims (padded @ MessageEvent.message messageEvent))))"
    by (auto simp add: handleMockMessage_def Let_def encodeMessage_def split: sum.splits)
  from p p2 zeroPadValue_length [OF p] fin q encodeSignature_layout [of sg] show ?thesis by blast
qed

theorem mock_payload_is_signed_message_witness:
  "new_MockCollectorWorker example_worker_data =
     Inr \<lparr>config = example_worker_data, signingKey = replicate 32 0x01,
          incentivesAddressBytes32 = replicate 12 0 @ replicate 20 0xe5\<rparr>
   \<and> (\<exists>effects p. handleMockMessage example_primitives
          \<lparr>config = example_worker_data, signingKey = replicate 32 0x01,
           incentivesAddressBytes32 = replicate 12 0 @ replicate 20 0xe5\<rparr>
          example_log example_message_event = (effects, None)
        \<and> published_payload effects = Some p
        \<and> AmbPayload.message p = replicate 12 0 @ replicate 20 0xe5 @ [0x01, 0x02, 0x03]
        \<and> messageCtx p = Some (encodeSignature \<lparr>sig_r = 7, sig_s = 9, sig_v = 27\<rparr>))
   \<and> length (encodeSignature \<lparr>sig_r = 7, sig_s = 9, sig_v = 27\<rparr>) = 96
   \<and> be_value (take 32 (encodeSignature \<lparr>sig_r = 7, sig_s = 9, sig_v = 27\<rparr>)) = 27"
proof -
  let ?w = "\<lparr>config = example_worker_data, signingKey = replicate 32 0x01,
          incentivesAddressBytes32 = replicate 12 0 @ replicate 20 (0xe5 :: 8 word)\<rparr>"
  let ?sg = "\<lparr>sig_r = 7, sig_s = 9, sig_v = 27\<rparr>"
  let ?padded = "replicate (32 - length (MockWorkerData.incentivesAddress example_worker_data)) 0
         @ MockWorkerData.incentivesAddress example_worker_data"
  have h1: "new_MockCollectorWorker example_worker_data = Inr ?w"
    by (simp add: new_MockCollectorWorker_def zeroPadValue_def example_worker_data_def)
  obtain effects where h2: "handleMockMessage example_primitives ?w example_log example_message_event = (effects, None)"
    by (simp add: handleMockMessage_def Let_def example_primitives_def convertHexToDecimal_def)
  from mock_payload_is_signed_message [OF h1 h2, of ?sg]
  have t: "\<exists>p. published_payload effects = Some p"
     "\<forall>p. published_payload effects = Some p \<longrightarrow>
        AmbPayload.message p = ?padded @ MessageEvent.message example_message_event
        \<and> messageCtx p = Some (encodeSignature (sign example_primitives (privateKey example_worker_data)
             (keccak256 example_primitives (?padded @ MessageEvent.message example_message_event))))"
     "length (encodeSignature ?sg) = 96"
     "be_value (take 32 (encodeSignature ?sg)) = unat (sig_v ?sg)"
    by blast+
  from t(1) obtain p where p1: "published_payload effects = Some p" by blast
  with t(2) have p2: "AmbPayload.message p = ?padded @ MessageEvent.message example_message_event"
    and p3: "messageCtx p = Some (encodeSignature (sign example_primitives (privateKey example_worker_data)
             (keccak256 example_primitives (?padded @ MessageEvent.message example_message_event))))"
    by blast+
  from p2 have m: "AmbPayload.message p = replicate 12 0 @ replicate 20 0xe5 @ [0x01, 0x02, 0x03]"
    by (simp add: example_worker_data_def example_message_event_def)
  from p3 have c: "messageCtx p = Some (encodeSignature ?sg)"
    by (simp add: example_primitives_def)
  from t(4) have v: "be_value (take 32 (encodeSignature ?sg)) = 27" by simp
  from h1 h2 p1 m c t(3) v show ?thesis by blast
qed

section \<open>The GARP message decoder (C7)\<close>





















end
